theory Spec2Isabelle
  imports Main
begin

unbundle bit_operations_syntax

section \<open>The BGAPI backend of pygatt (bgapi.py)\<close>

text \<open>
  The driver is the class \<open>BGAPIBackend\<close>. Its attributes become the record
  \<open>backend\<close>; every method takes the record and returns it updated. What the methods
  exchange with the outside (the receiver queue, the wall clock, the serial port) is a
  \<open>world\<close>: the outcome of the k-th \<open>Queue.get\<close> and of the k-th \<open>time.time()\<close>, with the
  positions reached so far kept beside \<open>self\<close> in the record \<open>driver\<close>.
  Logging has no effect on the state and is left out.
\<close>

subsection \<open>Packets\<close>

text \<open>
  \<open>PacketType\<close> is the enumeration of bglib. The members that get a handler of their own
  in \<open>__init__\<close> are listed by name; every other member keeps \<open>_generic_handler\<close>.
\<close>

datatype PacketType =
    ble_rsp_attclient_attribute_write
  | ble_rsp_attclient_find_information
  | ble_rsp_attclient_read_by_handle
  | ble_rsp_connection_disconnect
  | ble_rsp_connection_get_rssi
  | ble_rsp_gap_connect_direct
  | ble_rsp_gap_discover
  | ble_rsp_gap_end_procedure
  | ble_rsp_gap_set_mode
  | ble_rsp_gap_set_scan_parameters
  | ble_rsp_sm_delete_bonding
  | ble_rsp_sm_encrypt_start
  | ble_rsp_sm_get_bonds
  | ble_rsp_sm_set_bondable_mode
  | ble_evt_attclient_attribute_value
  | ble_evt_attclient_find_information_found
  | ble_evt_attclient_procedure_completed
  | ble_evt_connection_status
  | ble_evt_connection_disconnected
  | ble_evt_gap_scan_response
  | ble_evt_sm_bond_status
  | ble_evt_sm_bonding_fail
  | other_packet_type nat

text \<open>
  The dictionary \<open>args\<close> that \<open>decode_packet\<close> returns. A handler reads only the keys of
  its own packet kind, which the decoder always supplies; the record holds every key that
  some handler reads to update the state.
\<close>

record args =
  arg_connection :: int
  arg_atthandle :: int
  arg_value :: "int list"
  arg_chrhandle :: int
  arg_uuid :: "int list"
  arg_result :: int
  arg_reason :: int
  arg_flags :: int
  arg_rssi :: int
  arg_packet_type :: int
  arg_sender :: "int list"
  arg_data :: "int list"
  arg_bond :: int
  arg_bonds :: int

text \<open>The commands handed to \<open>send_command\<close>, by the name of the bglib encoder and its arguments.\<close>

datatype command =
    ble_cmd_sm_set_bondable_mode int
  | ble_cmd_sm_encrypt_start int int
  | ble_cmd_attclient_attribute_write int int "int list"
  | ble_cmd_gap_connect_direct "int list" int int int int int
  | ble_cmd_connection_disconnect int
  | ble_cmd_connection_get_rssi int

subsection \<open>Errors\<close>

text \<open>
  The exceptions a method can leave with. \<open>BGAPIError\<close> and \<open>NotConnectedError\<close> are the
  driver's own and carry the fixed part of their message (the text of
  \<open>get_return_message\<close> is left out); the others are Python's.
\<close>

datatype error =
    BGAPIError string
  | NotConnectedError string
  | NotImplementedError string
  | AssertionError
  | IndexError
  | AttributeError
  | UnicodeDecodeError

subsection \<open>The gatt objects\<close>

text \<open>
  Modelled from the spec: the module gatt is missing from the source. A Service owns an
  ordered sequence of Characteristics, each owning an ordered sequence of Descriptors;
  the fields are those the handlers and \<open>subscribe\<close> read or assign. A \<open>Uuid\<close> object is
  kept as the byte list it is built from.
\<close>

type_synonym Uuid = "int list"

datatype AttributeType =
    characteristic
  | primary_service
  | secondary_service
  | other_attribute_type string

datatype DescriptorType =
    client_characteristic_configuration
  | other_descriptor_type string

type_synonym CharacteristicType = string

record Descriptor =
  descriptor_handle :: int
  descriptor_uuid :: Uuid
  descriptor_type :: DescriptorType

record Characteristic =
  characteristic_handle :: int
  characteristic_uuid :: Uuid
  custom :: bool
  characteristic_type :: "CharacteristicType option"
  descriptors :: "Descriptor list"

record Service =
  service_handle :: int
  service_uuid :: Uuid
  secondary :: bool
  characteristics :: "Characteristic list"

definition new_Descriptor :: "int \<Rightarrow> Uuid \<Rightarrow> DescriptorType \<Rightarrow> Descriptor" where
  "new_Descriptor h u t =
     \<lparr>descriptor_handle = h, descriptor_uuid = u, descriptor_type = t\<rparr>"

definition new_Characteristic :: "int \<Rightarrow> Uuid \<Rightarrow> Characteristic" where
  "new_Characteristic h u =
     \<lparr>characteristic_handle = h, characteristic_uuid = u, custom = False,
      characteristic_type = None, descriptors = []\<rparr>"

definition new_Service :: "int \<Rightarrow> Uuid \<Rightarrow> bool \<Rightarrow> Service" where
  "new_Service h u sec =
     \<lparr>service_handle = h, service_uuid = u, secondary = sec, characteristics = []\<rparr>"

subsection \<open>What the driver imports\<close>

text \<open>
  The modules bglib, constants and gatt are not part of the source; the names the driver
  uses from them are parameters. An enumeration is the list of its members, each a name
  and a value, in the order of iteration.
\<close>

record 'raw deps =
  decode_packet :: "'raw \<Rightarrow> PacketType \<times> args"
  ConnectionStatusFlag_connected :: int
  ConnectionStatusFlag_encrypted :: int
  Bondable_yes :: int
  Bonding_create_bonding :: int
  ScanResponsePacketType :: "(string \<times> int) list"
  ScanResponseDataType :: "(string \<times> int) list"
  utf8_decode :: "int list \<Rightarrow> string option"
  Uuid_len :: "Uuid \<Rightarrow> nat"
  Uuid_str :: "Uuid \<Rightarrow> string"
  UUID_STRING_TO_ATTRIBUTE_TYPE :: "string \<rightharpoonup> AttributeType"
  UUID_STRING_TO_CHARACTERISTIC_TYPE :: "string \<rightharpoonup> CharacteristicType"
  UUID_STRING_TO_DESCRIPTOR_TYPE :: "string \<rightharpoonup> DescriptorType"

subsection \<open>The state of the driver\<close>

text \<open>A Python dict with its keys in insertion order; \<open>len\<close> is the length of the list.\<close>

type_synonym ('k, 'v) dict = "('k \<times> 'v) list"

fun dict_set :: "('k, 'v) dict \<Rightarrow> 'k \<Rightarrow> 'v \<Rightarrow> ('k, 'v) dict" where
  "dict_set [] k v = [(k, v)]"
| "dict_set ((k', v') # d) k v = (if k' = k then (k, v) # d else (k', v') # dict_set d k v)"

datatype field_value =
    Name string
  | Uuids "Uuid list"
  | Bytes "int list"

type_synonym data_dict = "(string, field_value) dict"

record device =
  device_name :: string
  device_address :: "int list"
  device_rssi :: int
  device_packet_data :: "(string option, data_dict) dict"

text \<open>
  A callback is any Python callable. \<open>subscribe\<close> reads its \<open>__name__\<close>, which a function has
  and other callables (a \<open>functools.partial\<close>, an object with \<open>__call__\<close>) may lack.
\<close>

datatype callback = Callback (callback_name: "string option")

record backend =
  callbacks :: "int \<rightharpoonup> callback"
  expected_attribute_handle :: "int option"
  num_bonds :: int
  stored_bonds :: "int list"
  connection_handle :: int
  devices_discovered :: "(int list, device) dict"
  attribute_value :: "int list option"
  services :: "Service list"
  event_return :: int
  response_return :: int
  bonded :: bool
  connected :: bool
  encrypted :: bool
  bond_expected :: bool
  attribute_value_received :: bool
  procedure_completed :: bool
  bonding_fail :: bool

text \<open>The attributes as \<open>__init__\<close> sets them.\<close>

definition BGAPIBackend_init :: backend where
  "BGAPIBackend_init =
     \<lparr>callbacks = Map.empty, expected_attribute_handle = None, num_bonds = 0,
      stored_bonds = [], connection_handle = 0, devices_discovered = [],
      attribute_value = None, services = [], event_return = 0, response_return = 0,
      bonded = False, connected = False, encrypted = False, bond_expected = False,
      attribute_value_received = False, procedure_completed = False,
      bonding_fail = False\<rparr>"

subsection \<open>Helpers of the handlers\<close>

text \<open>\<open>_connection_status_flag\<close>: is the flag in the connection status flags?\<close>

definition connection_status_flag :: "int \<Rightarrow> int \<Rightarrow> bool" where
  "connection_status_flag flags flag_to_find \<longleftrightarrow> (flags AND flag_to_find) = flag_to_find"

text \<open>
  An assignment through \<open>xs[-1]\<close>: the last element is replaced by what \<open>f\<close> makes of it;
  on the empty list Python raises IndexError, and so does the model.
\<close>

fun on_last :: "('a \<Rightarrow> error + 'a) \<Rightarrow> 'a list \<Rightarrow> error + 'a list" where
  "on_last f [] = Inl IndexError"
| "on_last f [x] = (case f x of Inl e \<Rightarrow> Inl e | Inr y \<Rightarrow> Inr [y])"
| "on_last f (x # y # ys) =
     (case on_last f (y # ys) of Inl e \<Rightarrow> Inl e | Inr zs \<Rightarrow> Inr (x # zs))"

text \<open>\<open>self._services[-1].characteristics[-1]\<close>, updated by \<open>f\<close>.\<close>

definition on_last_characteristic ::
  "(Characteristic \<Rightarrow> Characteristic) \<Rightarrow> Service list \<Rightarrow> error + Service list" where
  "on_last_characteristic f svcs =
     on_last (\<lambda>sv. case on_last (\<lambda>c. Inr (f c)) (characteristics sv) of
                      Inl e \<Rightarrow> Inl e
                    | Inr cs \<Rightarrow> Inr (sv\<lparr>characteristics := cs\<rparr>)) svcs"

text \<open>The first member of an enumeration with the given value (a \<open>for\<close> with \<open>break\<close>).\<close>

fun enum_find :: "(string \<times> int) list \<Rightarrow> int \<Rightarrow> string option" where
  "enum_find [] v = None"
| "enum_find ((n, w) # ms) v = (if w = v then Some n else enum_find ms v)"

text \<open>The name of the last member with the given value (a \<open>for\<close> without \<open>break\<close>).\<close>

fun enum_find_last :: "(string \<times> int) list \<Rightarrow> int \<Rightarrow> string option \<Rightarrow> string option" where
  "enum_find_last [] v r = r"
| "enum_find_last ((n, w) # ms) v r = enum_find_last ms v (if w = v then Some n else r)"

subsection \<open>Parsing advertisement data\<close>

text \<open>
  The inner loop of the 128-bit branch of \<open>_scan_rsp_data\<close>: \<open>uuid_str\<close> grows by the
  reversed 16-byte slice \<open>i\<close> at each turn, and each turn appends a Uuid made from all of it.
\<close>

fun uuid_slices :: "int list \<Rightarrow> nat list \<Rightarrow> int list \<Rightarrow> Uuid list \<Rightarrow> Uuid list" where
  "uuid_slices field_value [] uuid_str acc = acc"
| "uuid_slices field_value (i # is) uuid_str acc =
     (let uuid_str = uuid_str @ rev (take 16 (drop (i * 16) field_value))
      in uuid_slices field_value is uuid_str (acc @ [uuid_str]))"

text \<open>
  What \<open>_scan_rsp_data\<close> does once a field is complete. A first byte that is the value
  of no member leaves \<open>field_type\<close> at None: neither test for a name or a list of UUIDs
  holds, and the last branch fails on \<open>field_type.name\<close>.
\<close>

definition end_of_field ::
  "'raw deps \<Rightarrow> int list \<Rightarrow> string \<Rightarrow> data_dict \<Rightarrow> error + string \<times> data_dict" where
  "end_of_field D field_value dev_name data_dict =
     (case field_value of
        [] \<Rightarrow> Inl IndexError
      | t # field_value \<Rightarrow>
          (case enum_find (ScanResponseDataType D) t of
             None \<Rightarrow> Inl AttributeError
           | Some field_type \<Rightarrow>
               if field_type = ''complete_local_name'' \<or>
                  field_type = ''shortened_local_name''
               then (case utf8_decode D field_value of
                       None \<Rightarrow> Inl UnicodeDecodeError
                     | Some dev_name \<Rightarrow>
                         Inr (dev_name, dict_set data_dict field_type (Name dev_name)))
               else if field_type = ''complete_list_128_bit_service_class_uuids''
               then Inr (dev_name,
                         dict_set data_dict field_type
                           (Uuids (uuid_slices field_value
                                     [0 ..< length field_value div 16] [] [])))
               else Inr (dev_name, dict_set data_dict field_type (Bytes field_value))))"

text \<open>
  \<open>_scan_rsp_data\<close>: the loop over the bytes of \<open>data\<close>, with the loop's variables as
  arguments; it returns the name and the dictionary of the parsed fields.
\<close>

fun scan_rsp_loop ::
  "'raw deps \<Rightarrow> int list \<Rightarrow> int \<Rightarrow> int list \<Rightarrow> string \<Rightarrow> data_dict \<Rightarrow>
   error + string \<times> data_dict" where
  "scan_rsp_loop D [] bytes_left_in_field field_value dev_name data_dict =
     Inr (dev_name, data_dict)"
| "scan_rsp_loop D (b # bs) bytes_left_in_field field_value dev_name data_dict =
     (if bytes_left_in_field = 0 then scan_rsp_loop D bs b [] dev_name data_dict
      else
        (let field_value = field_value @ [b];
             bytes_left_in_field = bytes_left_in_field - 1
         in if bytes_left_in_field = 0
            then (case end_of_field D field_value dev_name data_dict of
                    Inl e \<Rightarrow> Inl e
                  | Inr (dev_name, data_dict) \<Rightarrow>
                      scan_rsp_loop D bs bytes_left_in_field (tl field_value)
                        dev_name data_dict)
            else scan_rsp_loop D bs bytes_left_in_field field_value dev_name data_dict))"

definition scan_rsp_data :: "'raw deps \<Rightarrow> int list \<Rightarrow> error + string \<times> data_dict" where
  "scan_rsp_data D data = scan_rsp_loop D data 0 [] [] []"

subsection \<open>The packet handlers\<close>

definition generic_handler :: "args \<Rightarrow> backend \<Rightarrow> error + backend" where
  "generic_handler args self = Inr self"

definition ble_evt_attclient_attribute_value_handler :: "args \<Rightarrow> backend \<Rightarrow> error + backend" where
  "ble_evt_attclient_attribute_value_handler args self =
     Inr (self\<lparr>attribute_value_received := True, attribute_value := Some (arg_value args)\<rparr>)"

definition ble_evt_attclient_find_information_found_handler ::
  "'raw deps \<Rightarrow> args \<Rightarrow> backend \<Rightarrow> error + backend" where
  "ble_evt_attclient_find_information_found_handler D args self =
     (let uuid = rev (arg_uuid args) in
      if Uuid_len D uuid = 128 then
        (case on_last_characteristic
                (\<lambda>c. c\<lparr>custom := True, characteristic_uuid := uuid,
                        characteristic_handle := arg_chrhandle args\<rparr>) (services self) of
           Inl e \<Rightarrow> Inl e
         | Inr svcs \<Rightarrow> Inr (self\<lparr>services := svcs\<rparr>))
      else
      (case UUID_STRING_TO_ATTRIBUTE_TYPE D (Uuid_str D uuid) of
         Some att_type \<Rightarrow>
           if att_type = characteristic then
             (let char = new_Characteristic (arg_chrhandle args) uuid in
              case on_last (\<lambda>sv. Inr (sv\<lparr>characteristics := characteristics sv @ [char]\<rparr>))
                     (services self) of
                Inl e \<Rightarrow> Inl e
              | Inr svcs \<Rightarrow> Inr (self\<lparr>services := svcs\<rparr>))
           else if att_type = primary_service then
             (let serv = new_Service (arg_chrhandle args) uuid False in
              Inr (self\<lparr>services := services self @ [serv]\<rparr>))
           else if att_type = secondary_service then
             (let serv = new_Service (arg_chrhandle args) uuid True in
              Inr (self\<lparr>services := services self @ [serv]\<rparr>))
           else Inr self
       | None \<Rightarrow>
      (case UUID_STRING_TO_CHARACTERISTIC_TYPE D (Uuid_str D uuid) of
         Some char_type \<Rightarrow>
           (case on_last_characteristic (\<lambda>c. c\<lparr>characteristic_type := Some char_type\<rparr>)
                   (services self) of
              Inl e \<Rightarrow> Inl e
            | Inr svcs \<Rightarrow> Inr (self\<lparr>services := svcs\<rparr>))
       | None \<Rightarrow>
      (case UUID_STRING_TO_DESCRIPTOR_TYPE D (Uuid_str D uuid) of
         Some desc_type \<Rightarrow>
           (let desc = new_Descriptor (arg_chrhandle args) uuid desc_type in
            case on_last_characteristic (\<lambda>c. c\<lparr>descriptors := descriptors c @ [desc]\<rparr>)
                   (services self) of
              Inl e \<Rightarrow> Inl e
            | Inr svcs \<Rightarrow> Inr (self\<lparr>services := svcs\<rparr>))
       | None \<Rightarrow> Inr self))))"

definition ble_evt_attclient_procedure_completed_handler :: "args \<Rightarrow> backend \<Rightarrow> error + backend" where
  "ble_evt_attclient_procedure_completed_handler args self =
     Inr (self\<lparr>procedure_completed := True, event_return := arg_result args\<rparr>)"

definition ble_evt_connection_disconnected_handler :: "args \<Rightarrow> backend \<Rightarrow> error + backend" where
  "ble_evt_connection_disconnected_handler args self =
     Inr (self\<lparr>connected := False, encrypted := False, bonded := False,
              event_return := arg_reason args\<rparr>)"

definition ble_evt_connection_status_handler :: "'raw deps \<Rightarrow> args \<Rightarrow> backend \<Rightarrow> error + backend" where
  "ble_evt_connection_status_handler D args self =
     (let self = self\<lparr>connection_handle := arg_connection args\<rparr>;
          self = (if connection_status_flag (arg_flags args) (ConnectionStatusFlag_connected D)
                  then self\<lparr>connected := True\<rparr> else self);
          self = (if connection_status_flag (arg_flags args) (ConnectionStatusFlag_encrypted D)
                  then self\<lparr>encrypted := True\<rparr> else self)
      in Inr self)"

definition ble_evt_gap_scan_response_handler :: "'raw deps \<Rightarrow> args \<Rightarrow> backend \<Rightarrow> error + backend" where
  "ble_evt_gap_scan_response_handler D args self =
     (let packet_type = enum_find_last (ScanResponsePacketType D) (arg_packet_type args) None;
          address = rev (arg_sender args)
      in case scan_rsp_data D (arg_data args) of
           Inl e \<Rightarrow> Inl e
         | Inr (name, data_dict) \<Rightarrow>
             (let dev = (case map_of (devices_discovered self) address of
                           None \<Rightarrow> \<lparr>device_name = name, device_address = address,
                                    device_rssi = arg_rssi args, device_packet_data = []\<rparr>
                         | Some dev \<Rightarrow> dev);
                  dev = (if device_name dev = [] then dev\<lparr>device_name := name\<rparr> else dev);
                  dev = (case map_of (device_packet_data dev) packet_type of
                           None \<Rightarrow>
                             dev\<lparr>device_packet_data :=
                                   dict_set (device_packet_data dev) packet_type data_dict\<rparr>
                         | Some stored \<Rightarrow>
                             if length stored < length data_dict
                             then dev\<lparr>device_packet_data :=
                                        dict_set (device_packet_data dev) packet_type data_dict\<rparr>
                             else dev)
              in Inr (self\<lparr>devices_discovered :=
                              dict_set (devices_discovered self) address dev\<rparr>)))"

definition ble_evt_sm_bond_status_handler :: "args \<Rightarrow> backend \<Rightarrow> error + backend" where
  "ble_evt_sm_bond_status_handler args self =
     (if bond_expected self then Inr (self\<lparr>bond_expected := False, bonded := True\<rparr>)
      else Inr (self\<lparr>stored_bonds := stored_bonds self @ [arg_bond args]\<rparr>))"

definition ble_evt_sm_bonding_fail_handler :: "args \<Rightarrow> backend \<Rightarrow> error + backend" where
  "ble_evt_sm_bonding_fail_handler args self =
     Inr (self\<lparr>bonding_fail := True, event_return := arg_result args\<rparr>)"

text \<open>
  Eleven response handlers have the same body, \<open>self._response_return = args['result']\<close>:
  those of attribute_write, find_information, read_by_handle, connection_disconnect,
  gap_connect_direct, gap_discover, gap_end_procedure, gap_set_mode,
  gap_set_scan_parameters, sm_delete_bonding and sm_encrypt_start.
\<close>

definition ble_rsp_result :: "args \<Rightarrow> backend \<Rightarrow> error + backend" where
  "ble_rsp_result args self = Inr (self\<lparr>response_return := arg_result args\<rparr>)"

definition ble_rsp_connection_get_rssi_handler :: "args \<Rightarrow> backend \<Rightarrow> error + backend" where
  "ble_rsp_connection_get_rssi_handler args self = Inr (self\<lparr>response_return := arg_rssi args\<rparr>)"

definition ble_rsp_sm_get_bonds_handler :: "args \<Rightarrow> backend \<Rightarrow> error + backend" where
  "ble_rsp_sm_get_bonds_handler args self = Inr (self\<lparr>num_bonds := arg_bonds args\<rparr>)"

definition ble_rsp_sm_set_bondable_mode_handler :: "args \<Rightarrow> backend \<Rightarrow> error + backend" where
  "ble_rsp_sm_set_bondable_mode_handler args self = Inr self"

text \<open>
  A handler \<open>_ble_xxx\<close> of the source is \<open>ble_xxx_handler\<close> here, the name \<open>ble_xxx\<close> being
  the packet type's.
  The table \<open>self._packet_handlers\<close>: \<open>__init__\<close> enters \<open>_generic_handler\<close> for every
  member of \<open>PacketType\<close> and then the handlers below, so every packet type is a key.
\<close>

fun packet_handlers :: "'raw deps \<Rightarrow> PacketType \<Rightarrow> args \<Rightarrow> backend \<Rightarrow> error + backend" where
  "packet_handlers D ble_rsp_attclient_attribute_write = ble_rsp_result"
| "packet_handlers D ble_rsp_attclient_find_information = ble_rsp_result"
| "packet_handlers D ble_rsp_attclient_read_by_handle = ble_rsp_result"
| "packet_handlers D ble_rsp_connection_disconnect = ble_rsp_result"
| "packet_handlers D ble_rsp_connection_get_rssi = ble_rsp_connection_get_rssi_handler"
| "packet_handlers D ble_rsp_gap_connect_direct = ble_rsp_result"
| "packet_handlers D ble_rsp_gap_discover = ble_rsp_result"
| "packet_handlers D ble_rsp_gap_end_procedure = ble_rsp_result"
| "packet_handlers D ble_rsp_gap_set_mode = ble_rsp_result"
| "packet_handlers D ble_rsp_gap_set_scan_parameters = ble_rsp_result"
| "packet_handlers D ble_rsp_sm_delete_bonding = ble_rsp_result"
| "packet_handlers D ble_rsp_sm_encrypt_start = ble_rsp_result"
| "packet_handlers D ble_rsp_sm_get_bonds = ble_rsp_sm_get_bonds_handler"
| "packet_handlers D ble_rsp_sm_set_bondable_mode = ble_rsp_sm_set_bondable_mode_handler"
| "packet_handlers D ble_evt_attclient_attribute_value = ble_evt_attclient_attribute_value_handler"
| "packet_handlers D ble_evt_attclient_find_information_found =
     ble_evt_attclient_find_information_found_handler D"
| "packet_handlers D ble_evt_attclient_procedure_completed =
     ble_evt_attclient_procedure_completed_handler"
| "packet_handlers D ble_evt_connection_status = ble_evt_connection_status_handler D"
| "packet_handlers D ble_evt_connection_disconnected = ble_evt_connection_disconnected_handler"
| "packet_handlers D ble_evt_gap_scan_response = ble_evt_gap_scan_response_handler D"
| "packet_handlers D ble_evt_sm_bond_status = ble_evt_sm_bond_status_handler"
| "packet_handlers D ble_evt_sm_bonding_fail = ble_evt_sm_bonding_fail_handler"
| "packet_handlers D (other_packet_type n) = generic_handler"

subsection \<open>The world around the driver\<close>

text \<open>
  The receiver thread fills \<open>self._recvr_queue\<close> while the caller waits, and the clock runs
  on its own. The world gives the outcome of the k-th call of
  \<open>self._recvr_queue.get(block=True, timeout=0.1)\<close>, a packet or None for \<open>Queue.Empty\<close>, and
  the reading of the k-th call of \<open>time.time()\<close>. The driver counts its calls in \<open>gets\<close> and
  \<open>clock_reads\<close> and keeps what \<open>send_command\<close> wrote in \<open>sent\<close>; \<open>obj\<close> is \<open>self\<close>.
\<close>

record ('raw, 't) world =
  recvr_queue_get :: "nat \<Rightarrow> 'raw option"
  time_time :: "nat \<Rightarrow> 't"

record driver =
  obj :: backend
  gets :: nat
  clock_reads :: nat
  sent :: "command list"

text \<open>
  A call ends by raising or by returning, in both cases with the driver as the call left
  it. A call that never ends has no outcome: the methods return an \<open>option\<close>.
\<close>

datatype 'a outcome = Raise error driver | Return 'a driver

definition then_do ::
  "'a outcome option \<Rightarrow> ('a \<Rightarrow> driver \<Rightarrow> 'b outcome option) \<Rightarrow> 'b outcome option" where
  "then_do m f =
     (case m of
        None \<Rightarrow> None
      | Some (Raise e dr) \<Rightarrow> Some (Raise e dr)
      | Some (Return x dr) \<Rightarrow> f x dr)"

definition send_command :: "command \<Rightarrow> driver \<Rightarrow> driver" where
  "send_command cmd dr = dr\<lparr>sent := sent dr @ [cmd]\<rparr>"

definition check_connection :: "bool \<Rightarrow> driver \<Rightarrow> unit outcome option" where
  "check_connection check_if_connected dr =
     (if \<not> connected (obj dr) \<and> check_if_connected
      then Some (Raise (NotConnectedError ''Not connected'') dr)
      else if connected (obj dr) \<and> \<not> check_if_connected
      then Some (Raise (BGAPIError ''Already connected'') dr)
      else Some (Return () dr))"

subsection \<open>Waiting for a packet\<close>

text \<open>
  The test at the head of the loop of \<open>_process_packets_until\<close>: with a timeout, the clock is
  read and the elapsed time compared with it.
\<close>

definition check_timeout ::
  "('raw, 't::linordered_ab_group_add) world \<Rightarrow> 't option \<Rightarrow> 't option \<Rightarrow> driver \<Rightarrow>
   bool \<times> driver" where
  "check_timeout W timeout start_time dr =
     (case (timeout, start_time) of
        (Some t, Some st) \<Rightarrow>
          (let elapsed_time = time_time W (clock_reads dr) - st
           in (elapsed_time \<ge> t, dr\<lparr>clock_reads := Suc (clock_reads dr)\<rparr>))
      | _ \<Rightarrow> (False, dr))"

text \<open>
  The loop \<open>while not found\<close>. A packet that was popped is decoded, \<open>found\<close> is set when its
  type is one of the expected, and its handler is called in either case.
\<close>

partial_function (option) packets_loop ::
  "'raw deps \<Rightarrow> ('raw, 't::linordered_ab_group_add) world \<Rightarrow> PacketType list \<Rightarrow>
   't option \<Rightarrow> 't option \<Rightarrow> (string \<Rightarrow> error) \<Rightarrow> driver \<Rightarrow> unit outcome option" where
  "packets_loop D W expected_packet_choices timeout start_time exception_type dr =
     (if fst (check_timeout W timeout start_time dr)
      then Some (Raise (exception_type ''timed out'') (snd (check_timeout W timeout start_time dr)))
      else
        (let dr = snd (check_timeout W timeout start_time dr);
             packet = recvr_queue_get W (gets dr);
             dr = dr\<lparr>gets := Suc (gets dr)\<rparr>
         in case packet of
              None \<Rightarrow>
                packets_loop D W expected_packet_choices timeout start_time exception_type dr
            | Some packet \<Rightarrow>
                (let packet_type = fst (decode_packet D packet);
                     args = snd (decode_packet D packet)
                 in case packet_handlers D packet_type args (obj dr) of
                      Inl e \<Rightarrow> Some (Raise e dr)
                    | Inr self \<Rightarrow>
                        if packet_type \<in> set expected_packet_choices
                        then Some (Return () (dr\<lparr>obj := self\<rparr>))
                        else packets_loop D W expected_packet_choices timeout start_time
                               exception_type (dr\<lparr>obj := self\<rparr>))))"

definition process_packets_until ::
  "'raw deps \<Rightarrow> ('raw, 't::linordered_ab_group_add) world \<Rightarrow> PacketType list \<Rightarrow>
   't option \<Rightarrow> (string \<Rightarrow> error) \<Rightarrow> driver \<Rightarrow> unit outcome option" where
  "process_packets_until D W expected_packet_choices timeout exception_type dr =
     (case timeout of
        None \<Rightarrow> packets_loop D W expected_packet_choices None None exception_type dr
      | Some t \<Rightarrow>
          packets_loop D W expected_packet_choices timeout
            (Some (time_time W (clock_reads dr))) exception_type
            (dr\<lparr>clock_reads := Suc (clock_reads dr)\<rparr>))"

subsection \<open>The operations\<close>

text \<open>\<open>connect\<close>: the timeout is a number of seconds, in the unit of the clock.\<close>

definition connect ::
  "'raw deps \<Rightarrow> ('raw, 't::linordered_ab_group_add) world \<Rightarrow> int list \<Rightarrow> 't \<Rightarrow> int \<Rightarrow>
   driver \<Rightarrow> unit outcome option" where
  "connect D W address timeout addr_type dr =
     (let bd_addr = address;
          interval_min = 6;
          interval_max = 30;
          supervision_timeout = 20;
          latency = 0;
          cmd = ble_cmd_gap_connect_direct bd_addr addr_type interval_min interval_max
                  supervision_timeout latency;
          dr = send_command cmd dr
      in then_do (process_packets_until D W [ble_rsp_gap_connect_direct] None BGAPIError dr)
           (\<lambda>_ dr.
             if response_return (obj dr) \<noteq> 0
             then Some (Raise (BGAPIError ''connect_direct failed: %s'') dr)
             else process_packets_until D W [ble_evt_connection_status] (Some timeout)
                    NotConnectedError dr))"

definition disconnect ::
  "'raw deps \<Rightarrow> ('raw, 't::linordered_ab_group_add) world \<Rightarrow> bool \<Rightarrow> driver \<Rightarrow>
   unit outcome option" where
  "disconnect D W fail_quietly dr =
     (let cmd = ble_cmd_connection_disconnect (connection_handle (obj dr));
          dr = send_command cmd dr
      in then_do (process_packets_until D W [ble_rsp_connection_disconnect] None BGAPIError dr)
           (\<lambda>_ dr.
             if response_return (obj dr) \<noteq> 0
             then (if fail_quietly then Some (Return () dr)
                   else Some (Raise (BGAPIError ''disconnect failed'') dr))
             else process_packets_until D W [ble_evt_connection_disconnected] None
                    BGAPIError dr))"

definition get_rssi_once ::
  "'raw deps \<Rightarrow> ('raw, 't::linordered_ab_group_add) world \<Rightarrow> driver \<Rightarrow> int outcome option" where
  "get_rssi_once D W dr =
     then_do (check_connection True dr) (\<lambda>_ dr.
       (let cmd = ble_cmd_connection_get_rssi (connection_handle (obj dr));
            dr = send_command cmd dr
        in then_do (process_packets_until D W
                      [ble_rsp_connection_get_rssi, ble_evt_connection_disconnected]
                      None BGAPIError dr)
             (\<lambda>_ dr. then_do (check_connection True dr)
               (\<lambda>_ dr. (let rssi_value = response_return (obj dr)
                         in Some (Return rssi_value dr))))))"

text \<open>
  \<open>get_rssi\<close>: the loop \<open>for i in range(0, num_attempts)\<close> over the values of \<open>i\<close> still to
  come. The pause \<open>time.sleep(0.1)\<close> between two attempts changes nothing of the driver.
\<close>

fun get_rssi_attempts ::
  "'raw deps \<Rightarrow> ('raw, 't::linordered_ab_group_add) world \<Rightarrow> nat list \<Rightarrow> driver \<Rightarrow>
   int outcome option" where
  "get_rssi_attempts D W [] dr = Some (Raise (BGAPIError ''get rssi failed'') dr)"
| "get_rssi_attempts D W (i # is) dr =
     then_do (get_rssi_once D W dr)
       (\<lambda>rssi dr. if rssi \<noteq> 25 then Some (Return rssi dr) else get_rssi_attempts D W is dr)"

definition get_rssi ::
  "'raw deps \<Rightarrow> ('raw, 't::linordered_ab_group_add) world \<Rightarrow> driver \<Rightarrow> int outcome option" where
  "get_rssi D W dr = (let num_attempts = 3 in get_rssi_attempts D W [0 ..< num_attempts] dr)"



text \<open>The loop \<open>while\<close> of \<open>bond\<close> that waits for the event.\<close>

partial_function (option) bond_wait ::
  "'raw deps \<Rightarrow> ('raw, 't::linordered_ab_group_add) world \<Rightarrow> driver \<Rightarrow> unit outcome option" where
  "bond_wait D W dr =
     (if \<not> bonding_fail (obj dr) \<and> connected (obj dr) \<and> \<not> bonded (obj dr) \<and>
         \<not> encrypted (obj dr)
      then (case process_packets_until D W
                   [ble_evt_connection_status, ble_evt_sm_bonding_fail,
                    ble_evt_connection_disconnected] None BGAPIError dr of
              None \<Rightarrow> None
            | Some (Raise e dr) \<Rightarrow> Some (Raise e dr)
            | Some (Return u dr) \<Rightarrow> bond_wait D W dr)
      else Some (Return () dr))"

definition bond ::
  "'raw deps \<Rightarrow> ('raw, 't::linordered_ab_group_add) world \<Rightarrow> driver \<Rightarrow> unit outcome option" where
  "bond D W dr =
     then_do (check_connection True dr) (\<lambda>_ dr.
       (let dr = dr\<lparr>obj := (obj dr)\<lparr>bond_expected := True\<rparr>\<rparr>;
            cmd = ble_cmd_sm_set_bondable_mode (Bondable_yes D);
            dr = send_command cmd dr
        in then_do (process_packets_until D W
                      [ble_rsp_sm_set_bondable_mode, ble_evt_connection_disconnected]
                      None BGAPIError dr)
           (\<lambda>_ dr. then_do (check_connection True dr)
           (\<lambda>_ dr.
             (let dr = dr\<lparr>obj := (obj dr)\<lparr>bonding_fail := False\<rparr>\<rparr>;
                  cmd = ble_cmd_sm_encrypt_start (connection_handle (obj dr))
                          (Bonding_create_bonding D);
                  dr = send_command cmd dr
              in then_do (process_packets_until D W
                            [ble_rsp_sm_encrypt_start, ble_evt_connection_disconnected]
                            None BGAPIError dr)
                 (\<lambda>_ dr. then_do (check_connection True dr)
                 (\<lambda>_ dr.
                   if response_return (obj dr) \<noteq> 0
                   then Some (Raise (BGAPIError ''encrypt_start failed: '') dr)
                   else then_do (bond_wait D W dr)
                     (\<lambda>_ dr. then_do (check_connection True dr)
                     (\<lambda>_ dr.
                       if bonding_fail (obj dr)
                       then Some (Raise (BGAPIError ''encrypt_start failed: '') dr)
                       else Some (Return () dr))))))))))"

subsection \<open>Notions used to state the properties\<close>

text \<open>
  The handler bank run over a sequence of decoded packets. A handler that raises has not
  yet assigned anything, so \<open>self\<close> is as before and the next packet finds it so.
\<close>

fun handle_all :: "'raw deps \<Rightarrow> (PacketType \<times> args) list \<Rightarrow> backend \<Rightarrow> backend" where
  "handle_all D [] self = self"
| "handle_all D (p # ps) self =
     handle_all D ps
       (case packet_handlers D (fst p) (snd p) self of Inl e \<Rightarrow> self | Inr self' \<Rightarrow> self')"

text \<open>
  The connection-lifecycle events are the connection status event and the disconnected
  event; \<open>last_lifecycle\<close> is the type of the most recent one in a sequence of packets.
\<close>

definition lifecycle :: "PacketType \<Rightarrow> bool" where
  "lifecycle pt \<longleftrightarrow> pt = ble_evt_connection_status \<or> pt = ble_evt_connection_disconnected"

definition last_lifecycle :: "(PacketType \<times> args) list \<Rightarrow> PacketType option" where
  "last_lifecycle ps =
     (case rev (filter lifecycle (map fst ps)) of [] \<Rightarrow> None | pt # _ \<Rightarrow> Some pt)"

text \<open>An \<open>args\<close> with every key at zero or empty, to be updated at the keys of a packet.\<close>

definition no_args :: args where
  "no_args =
     \<lparr>arg_connection = 0, arg_atthandle = 0, arg_value = [], arg_chrhandle = 0,
      arg_uuid = [], arg_result = 0, arg_reason = 0, arg_flags = 0, arg_rssi = 0,
      arg_packet_type = 0, arg_sender = [], arg_data = [], arg_bond = 0, arg_bonds = 0\<rparr>"

text \<open>
  An instance of the imported names, for concrete runs: packets are queued already
  decoded, the flags and the enumeration values are those of the BGAPI reference, a Uuid
  counts eight bits a byte and prints as its bytes, and the three tables hold the 16-bit
  UUIDs 0x2800, 0x2801, 0x2803 (attribute types), 0x2a00 (a characteristic type), 0x2901
  and 0x2902 (descriptor types).
\<close>

definition example_deps :: "(PacketType \<times> args) deps" where
  "example_deps =
     \<lparr>decode_packet = (\<lambda>p. p),
      ConnectionStatusFlag_connected = 1,
      ConnectionStatusFlag_encrypted = 2,
      Bondable_yes = 1,
      Bonding_create_bonding = 1,
      ScanResponsePacketType =
        [(''connectable_advertisement_packet'', 0),
         (''non_connectable_advertisement_packet'', 2),
         (''scan_response_packet'', 4),
         (''discoverable_advertisement_packet'', 6)],
      ScanResponseDataType =
        [(''flags'', 1), (''shortened_local_name'', 8), (''complete_local_name'', 9),
         (''tx_power_level'', 10),
         (''complete_list_128_bit_service_class_uuids'', 7)],
      utf8_decode = (\<lambda>bs. Some (map (\<lambda>b. if b = 65 then CHR ''A'' else CHR ''x'') bs)),
      Uuid_len = (\<lambda>u. 8 * length u),
      Uuid_str = (\<lambda>u. if u = [40, 0] then ''0x2800'' else if u = [40, 1] then ''0x2801''
                       else if u = [40, 3] then ''0x2803'' else if u = [42, 0] then ''0x2a00''
                       else if u = [41, 1] then ''0x2901'' else if u = [41, 2] then ''0x2902''
                       else ''other''),
      UUID_STRING_TO_ATTRIBUTE_TYPE =
        [''0x2800'' \<mapsto> primary_service, ''0x2801'' \<mapsto> secondary_service,
         ''0x2803'' \<mapsto> characteristic],
      UUID_STRING_TO_CHARACTERISTIC_TYPE = [''0x2a00'' \<mapsto> ''device_name''],
      UUID_STRING_TO_DESCRIPTOR_TYPE =
        [''0x2901'' \<mapsto> other_descriptor_type ''characteristic_user_description'',
         ''0x2902'' \<mapsto> client_characteristic_configuration]\<rparr>"

text \<open>The packets that \<open>n\<close> calls of \<open>get\<close> pop, from the call number \<open>k\<close> on.\<close>

definition popped :: "('raw, 't) world \<Rightarrow> nat \<Rightarrow> nat \<Rightarrow> 'raw list" where
  "popped W k n = List.map_filter (recvr_queue_get W) [k ..< k + n]"

text \<open>
  The handlers of a sequence of popped packets, called one after the other on \<open>self\<close> as
  the loop calls them, up to the first that raises.
\<close>

fun apply_handlers :: "'raw deps \<Rightarrow> 'raw list \<Rightarrow> backend \<Rightarrow> error + backend" where
  "apply_handlers D [] self = Inr self"
| "apply_handlers D (p # ps) self =
     (case packet_handlers D (fst (decode_packet D p)) (snd (decode_packet D p)) self of
        Inl e \<Rightarrow> Inl e
      | Inr self' \<Rightarrow> apply_handlers D ps self')"

text \<open>
  The elapsed time that the test number \<open>j\<close> of a wait computes (counting from 0), when
  the wait read its start time at the clock reading number \<open>c\<close>.
\<close>

definition elapsed :: "('raw, 't::linordered_ab_group_add) world \<Rightarrow> nat \<Rightarrow> nat \<Rightarrow> 't" where
  "elapsed W c j = time_time W (Suc c + j) - time_time W c"

text \<open>
  Whether the test of \<open>check_timeout\<close> holds at the clock reading \<open>c\<close>, and by how much a
  test moves the count of the readings.
\<close>

definition expired ::
  "('raw, 't::linordered_ab_group_add) world \<Rightarrow> 't option \<Rightarrow> 't option \<Rightarrow> nat \<Rightarrow> bool" where
  "expired W timeout start_time c =
     (case (timeout, start_time) of
        (Some t, Some st) \<Rightarrow> time_time W c - st \<ge> t
      | _ \<Rightarrow> False)"

definition tick :: "'t option \<Rightarrow> 't option \<Rightarrow> nat" where
  "tick timeout start_time = (case (timeout, start_time) of (Some t, Some st) \<Rightarrow> 1 | _ \<Rightarrow> 0)"

text \<open>The driver an outcome ends with, and the exceptions that come out of a handler.\<close>

fun driver_of :: "'a outcome \<Rightarrow> driver" where
  "driver_of (Raise e dr) = dr"
| "driver_of (Return x dr) = dr"

definition handler_error :: "error \<Rightarrow> bool" where
  "handler_error e \<longleftrightarrow> e = IndexError \<or> e = AttributeError \<or> e = UnicodeDecodeError"

text \<open>
  A world given by the outcomes of the first calls of \<open>get\<close>, every later call finding the
  queue empty, and by a clock; and the driver right after \<open>__init__\<close>.
\<close>

definition scripted :: "'raw option list \<Rightarrow> (nat \<Rightarrow> 't) \<Rightarrow> ('raw, 't) world" where
  "scripted outcomes clock =
     \<lparr>recvr_queue_get = (\<lambda>k. if k < length outcomes then outcomes ! k else None),
      time_time = clock\<rparr>"

definition new_driver :: driver where
  "new_driver = \<lparr>obj = BGAPIBackend_init, gets = 0, clock_reads = 0, sent = []\<rparr>"

text \<open>
  The branch that \<open>_ble_evt_attclient_find_information_found\<close> takes for the UUID of an
  event, in the order of its tests: a UUID of length 128 is custom; otherwise the UUID is
  looked up as an attribute type, else as a characteristic type, else as a descriptor type.
\<close>

definition recognized_attribute :: "'raw deps \<Rightarrow> args \<Rightarrow> AttributeType \<Rightarrow> bool" where
  "recognized_attribute D a t \<longleftrightarrow>
     Uuid_len D (rev (arg_uuid a)) \<noteq> 128 \<and>
     UUID_STRING_TO_ATTRIBUTE_TYPE D (Uuid_str D (rev (arg_uuid a))) = Some t"

definition recognized_characteristic_type :: "'raw deps \<Rightarrow> args \<Rightarrow> CharacteristicType \<Rightarrow> bool" where
  "recognized_characteristic_type D a t \<longleftrightarrow>
     Uuid_len D (rev (arg_uuid a)) \<noteq> 128 \<and>
     UUID_STRING_TO_ATTRIBUTE_TYPE D (Uuid_str D (rev (arg_uuid a))) = None \<and>
     UUID_STRING_TO_CHARACTERISTIC_TYPE D (Uuid_str D (rev (arg_uuid a))) = Some t"

definition recognized_descriptor :: "'raw deps \<Rightarrow> args \<Rightarrow> DescriptorType \<Rightarrow> bool" where
  "recognized_descriptor D a t \<longleftrightarrow>
     Uuid_len D (rev (arg_uuid a)) \<noteq> 128 \<and>
     UUID_STRING_TO_ATTRIBUTE_TYPE D (Uuid_str D (rev (arg_uuid a))) = None \<and>
     UUID_STRING_TO_CHARACTERISTIC_TYPE D (Uuid_str D (rev (arg_uuid a))) = None \<and>
     UUID_STRING_TO_DESCRIPTOR_TYPE D (Uuid_str D (rev (arg_uuid a))) = Some t"

text \<open>
  The name that the scan response handler finds for the packet type of an event, which is
  the key into \<open>packet_data\<close>, and the device it has stored for the sender of an event.
\<close>

definition packet_kind :: "'raw deps \<Rightarrow> args \<Rightarrow> string option" where
  "packet_kind D a = enum_find_last (ScanResponsePacketType D) (arg_packet_type a) None"

definition device_at :: "backend \<Rightarrow> args \<Rightarrow> device option" where
  "device_at self a = map_of (devices_discovered self) (rev (arg_sender a))"

text \<open>How many get-RSSI commands the driver has sent: one for each attempt.\<close>

definition rssi_commands :: "driver \<Rightarrow> nat" where
  "rssi_commands dr =
     length (filter (\<lambda>c. case c of ble_cmd_connection_get_rssi h \<Rightarrow> True | _ \<Rightarrow> False)
               (sent dr))"

text \<open>
  A driver that is connected, and a world in which three responses to the get-RSSI command
  arrive, each with the value 25.
\<close>

definition rssi_world :: "(PacketType \<times> args, int) world" where
  "rssi_world = scripted
     [Some (ble_rsp_connection_get_rssi, no_args\<lparr>arg_rssi := 25\<rparr>),
      Some (ble_rsp_connection_get_rssi, no_args\<lparr>arg_rssi := 25\<rparr>),
      Some (ble_rsp_connection_get_rssi, no_args\<lparr>arg_rssi := 25\<rparr>)] (\<lambda>k. int k)"

definition connected_driver :: driver where
  "connected_driver = new_driver\<lparr>obj := BGAPIBackend_init\<lparr>connected := True\<rparr>\<rparr>"

text \<open>The negation of the test of the loop \<open>while\<close> of \<open>bond\<close>.\<close>

definition bond_exit :: "driver \<Rightarrow> bool" where
  "bond_exit dr \<longleftrightarrow>
     bonding_fail (obj dr) \<or> \<not> connected (obj dr) \<or> bonded (obj dr) \<or> encrypted (obj dr)"

text \<open>
  Two worlds for \<open>bond\<close>: the responses to the two commands arrive with result 0, and then
  either a bonding-fail event or a connection status event with the flags connected and
  encrypted.
\<close>

definition bond_fail_world :: "(PacketType \<times> args, int) world" where
  "bond_fail_world = scripted
     [Some (ble_rsp_sm_set_bondable_mode, no_args),
      Some (ble_rsp_sm_encrypt_start, no_args),
      Some (ble_evt_sm_bonding_fail, no_args\<lparr>arg_result := 773\<rparr>)] (\<lambda>k. int k)"

definition bond_encrypted_world :: "(PacketType \<times> args, int) world" where
  "bond_encrypted_world = scripted
     [Some (ble_rsp_sm_set_bondable_mode, no_args),
      Some (ble_rsp_sm_encrypt_start, no_args),
      Some (ble_evt_connection_status, no_args\<lparr>arg_flags := 3\<rparr>)] (\<lambda>k. int k)"




text \<open>The packets of a sequence that come after its most recent disconnected event.\<close>

definition since_disconnected :: "(PacketType \<times> args) list \<Rightarrow> (PacketType \<times> args) list" where
  "since_disconnected ps =
     rev (takeWhile (\<lambda>p. fst p \<noteq> ble_evt_connection_disconnected) (rev ps))"

text \<open>
  A world for a link that is lost while \<open>bond\<close> waits: the connection comes up, the
  disconnected event arrives, then a bond status event, then the response to a disconnect
  command.
\<close>

definition lost_link_world :: "(PacketType \<times> args, int) world" where
  "lost_link_world = scripted
     [Some (ble_rsp_gap_connect_direct, no_args),
      Some (ble_evt_connection_status, no_args\<lparr>arg_flags := 1\<rparr>),
      Some (ble_evt_connection_disconnected, no_args\<lparr>arg_reason := 520\<rparr>),
      Some (ble_evt_sm_bond_status, no_args),
      Some (ble_rsp_connection_disconnect, no_args\<lparr>arg_result := 390\<rparr>)] (\<lambda>k. int k)"

section \<open>Properties\<close>

subsection \<open>What the handlers leave alone\<close>

lemmas handler_defs =
  ble_rsp_result_def ble_rsp_connection_get_rssi_handler_def ble_rsp_sm_get_bonds_handler_def
  ble_rsp_sm_set_bondable_mode_handler_def ble_evt_attclient_attribute_value_handler_def
  ble_evt_attclient_find_information_found_handler_def
  ble_evt_attclient_procedure_completed_handler_def ble_evt_connection_status_handler_def
  ble_evt_connection_disconnected_handler_def ble_evt_gap_scan_response_handler_def
  ble_evt_sm_bond_status_handler_def ble_evt_sm_bonding_fail_handler_def generic_handler_def

lemma handlers_flags:
  assumes "packet_handlers D pt args self = Inr self'"
  shows "bond_expected self' \<Longrightarrow> bond_expected self"
    and "pt \<noteq> ble_evt_connection_status \<Longrightarrow> encrypted self' \<Longrightarrow> encrypted self"
    and "\<not> bond_expected self \<Longrightarrow> bonded self' \<Longrightarrow> bonded self"
  using assms
  by (cases pt; auto simp: handler_defs Let_def
      split: option.splits sum.splits if_splits prod.splits)+

lemma handle_all_snoc:
  "handle_all D (ps @ [p]) self =
     (case packet_handlers D (fst p) (snd p) (handle_all D ps self) of
        Inl e \<Rightarrow> handle_all D ps self | Inr self' \<Rightarrow> self')"
  by (induction ps arbitrary: self) (simp_all split: sum.splits)

lemma handle_all_bond_expected:
  "\<not> bond_expected self \<Longrightarrow> \<not> bond_expected (handle_all D ps self)"
proof (induction ps arbitrary: self)
  case Nil
  then show ?case by simp
next
  case (Cons p ps)
  have "\<not> bond_expected
          (case packet_handlers D (fst p) (snd p) self of Inl e \<Rightarrow> self | Inr s \<Rightarrow> s)"
    using Cons.prems handlers_flags(1) by (fastforce split: sum.splits)
  then show ?case using Cons.IH by simp
qed

lemma last_lifecycle_snoc:
  "last_lifecycle (ps @ [p]) = (if lifecycle (fst p) then Some (fst p) else last_lifecycle ps)"
  by (simp add: last_lifecycle_def)

subsection \<open>The loop of \<open>_process_packets_until\<close>\<close>

lemma check_timeout_fst: "fst (check_timeout W timeout start_time dr) = expired W timeout start_time (clock_reads dr)"
  by (simp add: check_timeout_def expired_def Let_def split: option.splits)

lemma check_timeout_snd: "snd (check_timeout W timeout start_time dr) = dr\<lparr>clock_reads := clock_reads dr + tick timeout start_time\<rparr>"
  by (simp add: check_timeout_def tick_def Let_def split: option.splits)

lemma popped_0: "popped W k 0 = []"
  by (simp add: popped_def List.map_filter_simps)

lemma popped_Suc: "popped W k (Suc n) =
   (case recvr_queue_get W k of None \<Rightarrow> popped W (Suc k) n | Some p \<Rightarrow> p # popped W (Suc k) n)"
proof -
  have "[k ..< k + Suc n] = k # [Suc k ..< Suc k + n]"
    using upt_conv_Cons[of k "k + Suc n"] by simp
  then show ?thesis
    unfolding popped_def by (simp only: List.map_filter_simps)
qed

lemma packets_loop_match:
  assumes "\<forall>j\<le>n. \<not> expired W to st (clock_reads dr + j * tick to st)"
    and "\<forall>p\<in>set (popped W (gets dr) n). fst (decode_packet D p) \<notin> set epc"
    and "recvr_queue_get W (gets dr + n) = Some m"
    and "fst (decode_packet D m) \<in> set epc"
    and "apply_handlers D (popped W (gets dr) n @ [m]) (obj dr) = Inr self'"
  shows "packets_loop D W epc to st exc dr =
    Some (Return () (dr\<lparr>obj := self', gets := gets dr + Suc n,
       clock_reads := clock_reads dr + Suc n * tick to st\<rparr>))"
  using assms
proof (induction n arbitrary: dr)
  case 0
  then show ?case
    by (subst packets_loop.simps)
       (simp add: check_timeout_fst check_timeout_snd popped_0 Let_def split: sum.splits)
next
  case (Suc n)
  let ?dr1 = "dr\<lparr>clock_reads := clock_reads dr + tick to st, gets := Suc (gets dr)\<rparr>"
  have ne: "\<not> expired W to st (clock_reads dr)"
    using Suc.prems(1) by (metis add.right_neutral le0 mult_0)
  have ex': "\<forall>j\<le>n. \<not> expired W to st (clock_reads dr + tick to st + j * tick to st)"
  proof (intro allI impI)
    fix j assume "j \<le> n"
    then show "\<not> expired W to st (clock_reads dr + tick to st + j * tick to st)"
      using Suc.prems(1)[rule_format, of "Suc j"] by (simp add: add.assoc)
  qed
  show ?case
  proof (cases "recvr_queue_get W (gets dr)")
    case None
    have "packets_loop D W epc to st exc ?dr1 =
      Some (Return () (?dr1\<lparr>obj := self', gets := gets ?dr1 + Suc n,
        clock_reads := clock_reads ?dr1 + Suc n * tick to st\<rparr>))"
      using Suc.prems ex' None
      by (intro Suc.IH) (simp_all add: popped_Suc)
    then show ?thesis
      using None ne
      by (subst packets_loop.simps)
         (simp add: check_timeout_fst check_timeout_snd Let_def add.assoc)
  next
    case (Some p)
    from Suc.prems(2) Some have nm: "fst (decode_packet D p) \<notin> set epc"
      by (simp add: popped_Suc)
    from Suc.prems(5) Some obtain s1 where
      h1: "packet_handlers D (fst (decode_packet D p)) (snd (decode_packet D p)) (obj dr) = Inr s1"
      and rest: "apply_handlers D (popped W (Suc (gets dr)) n @ [m]) s1 = Inr self'"
      by (auto simp: popped_Suc split: sum.splits)
    let ?dr2 = "?dr1\<lparr>obj := s1\<rparr>"
    have "packets_loop D W epc to st exc ?dr2 =
      Some (Return () (?dr2\<lparr>obj := self', gets := gets ?dr2 + Suc n,
        clock_reads := clock_reads ?dr2 + Suc n * tick to st\<rparr>))"
      using Suc.prems ex' Some rest
      by (intro Suc.IH) (simp_all add: popped_Suc)
    then show ?thesis
      using Some ne nm h1
      by (subst packets_loop.simps)
         (simp add: check_timeout_fst check_timeout_snd Let_def add.assoc)
  qed
qed

lemma packets_loop_timeout:
  assumes "\<forall>j<n. \<not> expired W to st (clock_reads dr + j * tick to st)"
    and "expired W to st (clock_reads dr + n * tick to st)"
    and "\<forall>p\<in>set (popped W (gets dr) n). fst (decode_packet D p) \<notin> set epc"
    and "apply_handlers D (popped W (gets dr) n) (obj dr) = Inr self'"
  shows "packets_loop D W epc to st exc dr =
    Some (Raise (exc ''timed out'') (dr\<lparr>obj := self', gets := gets dr + n,
       clock_reads := clock_reads dr + Suc n * tick to st\<rparr>))"
  using assms
proof (induction n arbitrary: dr)
  case 0
  then show ?case
    by (subst packets_loop.simps)
       (simp add: check_timeout_fst check_timeout_snd popped_0 Let_def)
next
  case (Suc n)
  let ?dr1 = "dr\<lparr>clock_reads := clock_reads dr + tick to st, gets := Suc (gets dr)\<rparr>"
  have ne: "\<not> expired W to st (clock_reads dr)"
    using Suc.prems(1) by (metis add.right_neutral zero_less_Suc mult_0)
  have ex': "\<forall>j<n. \<not> expired W to st (clock_reads dr + tick to st + j * tick to st)"
  proof (intro allI impI)
    fix j assume "j < n"
    then show "\<not> expired W to st (clock_reads dr + tick to st + j * tick to st)"
      using Suc.prems(1)[rule_format, of "Suc j"] by (simp add: add.assoc)
  qed
  have ex2: "expired W to st (clock_reads dr + tick to st + n * tick to st)"
    using Suc.prems(2) by (simp add: add.assoc)
  show ?case
  proof (cases "recvr_queue_get W (gets dr)")
    case None
    have "packets_loop D W epc to st exc ?dr1 =
      Some (Raise (exc ''timed out'') (?dr1\<lparr>obj := self', gets := gets ?dr1 + n,
        clock_reads := clock_reads ?dr1 + Suc n * tick to st\<rparr>))"
      using Suc.prems ex' ex2 None
      by (intro Suc.IH) (simp_all add: popped_Suc)
    then show ?thesis
      using None ne
      by (subst packets_loop.simps)
         (simp add: check_timeout_fst check_timeout_snd Let_def add.assoc)
  next
    case (Some p)
    from Suc.prems(3) Some have nm: "fst (decode_packet D p) \<notin> set epc"
      by (simp add: popped_Suc)
    from Suc.prems(4) Some obtain s1 where
      h1: "packet_handlers D (fst (decode_packet D p)) (snd (decode_packet D p)) (obj dr) = Inr s1"
      and rest: "apply_handlers D (popped W (Suc (gets dr)) n) s1 = Inr self'"
      by (auto simp: popped_Suc split: sum.splits)
    let ?dr2 = "?dr1\<lparr>obj := s1\<rparr>"
    have "packets_loop D W epc to st exc ?dr2 =
      Some (Raise (exc ''timed out'') (?dr2\<lparr>obj := self', gets := gets ?dr2 + n,
        clock_reads := clock_reads ?dr2 + Suc n * tick to st\<rparr>))"
      using Suc.prems ex' ex2 Some rest
      by (intro Suc.IH) (simp_all add: popped_Suc)
    then show ?thesis
      using Some ne nm h1
      by (subst packets_loop.simps)
         (simp add: check_timeout_fst check_timeout_snd Let_def add.assoc)
  qed
qed

lemma on_last_error: "on_last f xs = Inl e \<Longrightarrow> (\<And>x e. f x = Inl e \<Longrightarrow> handler_error e) \<Longrightarrow> handler_error e"
  by (induction f xs rule: on_last.induct) (auto simp: handler_error_def split: sum.splits)

lemma on_last_characteristic_error: "on_last_characteristic f svcs = Inl e \<Longrightarrow> handler_error e"
  unfolding on_last_characteristic_def
  by (erule on_last_error) (auto split: sum.splits dest: on_last_error)

lemma end_of_field_error: "end_of_field D fv nm dd = Inl e \<Longrightarrow> handler_error e"
  by (auto simp: end_of_field_def handler_error_def split: list.splits option.splits if_splits)

lemma scan_rsp_loop_error: "scan_rsp_loop D bs l fv nm dd = Inl e \<Longrightarrow> handler_error e"
  by (induction D bs l fv nm dd rule: scan_rsp_loop.induct)
     (auto simp: Let_def split: if_splits sum.splits dest: end_of_field_error)

lemma handlers_error:
  assumes "packet_handlers D pt args self = Inl e"
  shows "handler_error e"
  using assms
  by (cases pt; auto simp: handler_defs Let_def scan_rsp_data_def
      split: option.splits sum.splits if_splits prod.splits
      dest: on_last_characteristic_error on_last_error scan_rsp_loop_error)

lemma packets_loop_sent:
  "packets_loop D W epc to st exc dr = Some r \<Longrightarrow> sent (driver_of r) = sent dr"
proof (induction rule: packets_loop.raw_induct[rotated 1, consumes 1, case_names step])
  case (step loop D W epc to st exc dr r)
  from step(2) show ?case
    by (auto simp: check_timeout_snd Let_def split: if_splits option.splits sum.splits
        dest!: step(1))
qed

lemma packets_loop_raises:
  "packets_loop D W epc to st exc dr = Some (Raise e dr') \<Longrightarrow>
   e = exc ''timed out'' \<and> to \<noteq> None \<or> handler_error e"
proof (induction D W epc to st exc dr "Raise e dr' :: unit outcome"
    rule: packets_loop.raw_induct[rotated 1, consumes 1, case_names step])
  case (step loop D W epc to st exc dr)
  from step(2) show ?case
    by (auto simp: check_timeout_fst expired_def Let_def
        split: if_splits option.splits sum.splits dest: handlers_error step(1))
qed

lemma process_packets_until_match:
  assumes "\<forall>p \<in> set (popped W (gets dr) n). fst (decode_packet D p) \<notin> set expected"
    and "recvr_queue_get W (gets dr + n) = Some m"
    and "fst (decode_packet D m) \<in> set expected"
    and "apply_handlers D (popped W (gets dr) n @ [m]) (obj dr) = Inr self'"
    and "case timeout of None \<Rightarrow> True | Some t \<Rightarrow> \<forall>j\<le>n. elapsed W (clock_reads dr) j < t"
  shows "process_packets_until D W expected timeout exception_type dr =
     Some (Return ()
       (dr\<lparr>obj := self', gets := gets dr + n + 1,
            clock_reads := (case timeout of None \<Rightarrow> clock_reads dr
                            | Some t \<Rightarrow> clock_reads dr + n + 2)\<rparr>))"
proof (cases timeout)
  case None
  have "packets_loop D W expected timeout None exception_type dr =
    Some (Return () (dr\<lparr>obj := self', gets := gets dr + Suc n,
       clock_reads := clock_reads dr + Suc n * tick timeout None\<rparr>))"
    by (rule packets_loop_match[OF _ assms(1-4)]) (simp add: expired_def None)
  then show ?thesis
    using None by (simp add: process_packets_until_def tick_def)
next
  case (Some t)
  let ?st = "Some (time_time W (clock_reads dr))"
  let ?dr = "dr\<lparr>clock_reads := Suc (clock_reads dr)\<rparr>"
  have ne: "\<forall>j\<le>n. \<not> expired W (Some t) ?st (clock_reads ?dr + j * tick (Some t) ?st)"
    using assms(5) Some by (simp add: expired_def tick_def elapsed_def not_le)
  have "packets_loop D W expected (Some t) ?st exception_type ?dr =
    Some (Return () (?dr\<lparr>obj := self', gets := gets ?dr + Suc n,
       clock_reads := clock_reads ?dr + Suc n * tick (Some t) ?st\<rparr>))"
    by (rule packets_loop_match) (use assms(1-4) ne in simp_all)
  then show ?thesis
    using Some by (simp add: process_packets_until_def tick_def)
qed

lemma process_packets_until_timeout:
  assumes "\<forall>p \<in> set (popped W (gets dr) n). fst (decode_packet D p) \<notin> set expected"
    and "apply_handlers D (popped W (gets dr) n) (obj dr) = Inr self'"
    and "\<forall>j<n. elapsed W (clock_reads dr) j < t"
    and "elapsed W (clock_reads dr) n \<ge> t"
  shows "process_packets_until D W expected (Some t) exception_type dr =
     Some (Raise (exception_type ''timed out'')
       (dr\<lparr>obj := self', gets := gets dr + n, clock_reads := clock_reads dr + n + 2\<rparr>))"
proof -
  let ?st = "Some (time_time W (clock_reads dr))"
  let ?dr = "dr\<lparr>clock_reads := Suc (clock_reads dr)\<rparr>"
  have ne: "\<forall>j<n. \<not> expired W (Some t) ?st (clock_reads ?dr + j * tick (Some t) ?st)"
    using assms(3) by (simp add: expired_def tick_def elapsed_def not_le)
  have ex: "expired W (Some t) ?st (clock_reads ?dr + n * tick (Some t) ?st)"
    using assms(4) by (simp add: expired_def tick_def elapsed_def)
  have "packets_loop D W expected (Some t) ?st exception_type ?dr =
    Some (Raise (exception_type ''timed out'') (?dr\<lparr>obj := self', gets := gets ?dr + n,
       clock_reads := clock_reads ?dr + Suc n * tick (Some t) ?st\<rparr>))"
    by (rule packets_loop_timeout) (use assms(1,2) ne ex in simp_all)
  then show ?thesis
    by (simp add: process_packets_until_def tick_def)
qed

subsection \<open>Waiting returns at the first expected packet\<close>

text \<open>
  C1. Let a call of \<open>_process_packets_until\<close> pop a finite sequence of packets of which
  only the last, \<open>m\<close>, has its type among the expected ones (the calls of \<open>get\<close> before it
  may also find the queue empty, and a timeout, if there is one, is not reached). If no
  handler raises, the call returns, the state is the one that the handlers of all the
  popped packets leave, called in order and that of \<open>m\<close> last, and \<open>get\<close> was called just
  as often as needed to pop \<open>m\<close>: nothing queued behind \<open>m\<close> is popped.
\<close>

theorem process_packets_until_first_match:
  assumes "\<forall>p \<in> set (popped W (gets dr) n). fst (decode_packet D p) \<notin> set expected"
    and "recvr_queue_get W (gets dr + n) = Some m"
    and "fst (decode_packet D m) \<in> set expected"
    and "apply_handlers D (popped W (gets dr) n @ [m]) (obj dr) = Inr self'"
    and "case timeout of None \<Rightarrow> True | Some t \<Rightarrow> \<forall>j\<le>n. elapsed W (clock_reads dr) j < t"
  shows "process_packets_until D W expected timeout exception_type dr =
     Some (Return ()
       (dr\<lparr>obj := self', gets := gets dr + n + 1,
            clock_reads := (case timeout of None \<Rightarrow> clock_reads dr
                            | Some t \<Rightarrow> clock_reads dr + n + 2)\<rparr>))"
  using assms by (rule process_packets_until_match)

theorem process_packets_until_first_match_witness:
  "process_packets_until example_deps
     (scripted
          [Some (ble_evt_sm_bond_status, no_args\<lparr>arg_bond := 5\<rparr>),
           None,
           Some (ble_evt_connection_status, no_args\<lparr>arg_connection := 7, arg_flags := 1\<rparr>),
           Some (ble_rsp_connection_get_rssi, no_args\<lparr>arg_rssi := - 60\<rparr>),
           Some (ble_evt_connection_disconnected, no_args\<lparr>arg_reason := 520\<rparr>)]
          (\<lambda>k. int k))
     [ble_rsp_connection_get_rssi, ble_evt_connection_disconnected] (Some 10) BGAPIError
     new_driver =
   Some (Return ()
     (new_driver\<lparr>obj := BGAPIBackend_init\<lparr>stored_bonds := [5], connection_handle := 7,
         connected := True, response_return := - 60\<rparr>, gets := 4, clock_reads := 5\<rparr>))"
  using process_packets_until_first_match[of 
     "scripted
          [Some (ble_evt_sm_bond_status, no_args\<lparr>arg_bond := 5\<rparr>),
           None,
           Some (ble_evt_connection_status, no_args\<lparr>arg_connection := 7, arg_flags := 1\<rparr>),
           Some (ble_rsp_connection_get_rssi, no_args\<lparr>arg_rssi := - 60\<rparr>),
           Some (ble_evt_connection_disconnected, no_args\<lparr>arg_reason := 520\<rparr>)]
          (\<lambda>k. int k)" new_driver 3 example_deps
     "[ble_rsp_connection_get_rssi, ble_evt_connection_disconnected]"
     "(ble_rsp_connection_get_rssi, no_args\<lparr>arg_rssi := - 60\<rparr>)"
     "BGAPIBackend_init\<lparr>stored_bonds := [5], connection_handle := 7,
         connected := True, response_return := - 60\<rparr>" "Some (10::int)" BGAPIError]
  by (simp add: scripted_def popped_def upt_rec new_driver_def
      example_deps_def BGAPIBackend_init_def no_args_def handler_defs connection_status_flag_def
      elapsed_def)

subsection \<open>Sequencing\<close>

lemma apply_handlers_append:
  "apply_handlers D (ps @ qs) self =
     (case apply_handlers D ps self of Inl e \<Rightarrow> Inl e | Inr s \<Rightarrow> apply_handlers D qs s)"
  by (induction ps arbitrary: self) (simp_all split: sum.splits)

lemma response_result_last:
  assumes "apply_handlers D (ps @ [r]) self = Inr s1"
    and "packet_handlers D (fst (decode_packet D r)) = ble_rsp_result"
  shows "response_return s1 = arg_result (snd (decode_packet D r))"
  using assms
  by (auto simp: apply_handlers_append ble_rsp_result_def split: sum.splits)

lemma then_do_Return [simp]: "then_do (Some (Return x dr)) f = f x dr"
  by (simp add: then_do_def)

lemma then_do_Raise [simp]: "then_do (Some (Raise e dr)) f = Some (Raise e dr)"
  by (simp add: then_do_def)

lemma then_do_None [simp]: "then_do None f = None"
  by (simp add: then_do_def)

subsection \<open>A connection that never comes\<close>

text \<open>
  C2. \<open>connect\<close> sends the connect-direct command. Let its response arrive with result 0
  (after \<open>n\<close> calls of \<open>get\<close> that pop no such response), and let the \<open>k\<close> calls of \<open>get\<close> that
  follow pop no connection status event, where \<open>k\<close> numbers the first test at which the
  elapsed time of the wait has reached the timeout: it is below the timeout at the tests
  before. If no handler raises, \<open>connect\<close> raises \<open>NotConnectedError\<close>, not \<open>BGAPIError\<close>,
  and it does so at that test: after \<open>k\<close> more calls of \<open>get\<close> and \<open>k + 2\<close> readings of the
  clock, neither earlier nor never.
\<close>

theorem connect_times_out_not_connected:
  assumes "\<forall>p \<in> set (popped W (gets dr) n). fst (decode_packet D p) \<noteq> ble_rsp_gap_connect_direct"
    and "recvr_queue_get W (gets dr + n) = Some r"
    and "fst (decode_packet D r) = ble_rsp_gap_connect_direct"
    and "arg_result (snd (decode_packet D r)) = 0"
    and "apply_handlers D (popped W (gets dr) n @ [r]) (obj dr) = Inr self1"
    and "\<forall>p \<in> set (popped W (gets dr + n + 1) k). fst (decode_packet D p) \<noteq> ble_evt_connection_status"
    and "apply_handlers D (popped W (gets dr + n + 1) k) self1 = Inr self2"
    and "\<forall>j<k. elapsed W (clock_reads dr) j < timeout"
    and "elapsed W (clock_reads dr) k \<ge> timeout"
  shows "connect D W address timeout addr_type dr =
     Some (Raise (NotConnectedError ''timed out'')
       (dr\<lparr>obj := self2, gets := gets dr + n + 1 + k, clock_reads := clock_reads dr + k + 2,
            sent := sent dr @ [ble_cmd_gap_connect_direct address addr_type 6 30 20 0]\<rparr>))"
proof -
  let ?dr0 = "send_command (ble_cmd_gap_connect_direct address addr_type 6 30 20 0) dr"
  let ?dr1 = "?dr0\<lparr>obj := self1, gets := gets ?dr0 + n + 1,
       clock_reads := (case (None :: 'b option) of None \<Rightarrow> clock_reads ?dr0 | Some t \<Rightarrow> clock_reads ?dr0 + n + 2)\<rparr>"
  have w1: "process_packets_until D W [ble_rsp_gap_connect_direct] None BGAPIError ?dr0 =
      Some (Return () ?dr1)"
    by (rule process_packets_until_match) (use assms(1-5) in \<open>simp_all add: send_command_def\<close>)
  have rr: "response_return (obj ?dr1) = 0"
    using response_result_last[OF assms(5)] assms(3,4) by simp
  have w2: "process_packets_until D W [ble_evt_connection_status] (Some timeout)
       NotConnectedError ?dr1 =
     Some (Raise (NotConnectedError ''timed out'')
       (?dr1\<lparr>obj := self2, gets := gets ?dr1 + k, clock_reads := clock_reads ?dr1 + k + 2\<rparr>))"
    by (rule process_packets_until_timeout) (use assms(6-9) in \<open>simp_all add: send_command_def\<close>)
  show ?thesis
    unfolding connect_def Let_def
    by (simp only: w1 then_do_Return rr w2 if_False simp_thms) (simp add: send_command_def)
qed

theorem connect_times_out_not_connected_witness:
  "connect example_deps
     (scripted [Some (ble_rsp_gap_connect_direct, no_args)] (\<lambda>k. int k))
     [1, 2, 3, 4, 5, 6] 3 0 new_driver =
   Some (Raise (NotConnectedError ''timed out'')
     (new_driver\<lparr>gets := 3, clock_reads := 4,
         sent := [ble_cmd_gap_connect_direct [1, 2, 3, 4, 5, 6] 0 6 30 20 0]\<rparr>))"
  using connect_times_out_not_connected[of
      "scripted [Some (ble_rsp_gap_connect_direct, no_args)] (\<lambda>k. int k)" new_driver 0
      example_deps "(ble_rsp_gap_connect_direct, no_args)" BGAPIBackend_init 2
      BGAPIBackend_init 3 "[1, 2, 3, 4, 5, 6]" 0]
  by (simp add: scripted_def popped_def upt_rec new_driver_def example_deps_def
      BGAPIBackend_init_def no_args_def handler_defs elapsed_def)

subsection \<open>Disconnecting quietly\<close>

lemma process_packets_until_raises:
  assumes "process_packets_until D W expected None exception_type dr = Some (Raise e dr')"
  shows "handler_error e"
  using assms packets_loop_raises[of D W expected None None exception_type dr e dr']
  by (simp add: process_packets_until_def)

lemma disconnect_quietly_raises:
  assumes "disconnect D W True dr = Some (Raise e dr')"
  shows "handler_error e"
  using assms
  by (auto simp: disconnect_def Let_def then_do_def
      split: option.splits outcome.splits if_splits dest: process_packets_until_raises)

lemma disconnect_quietly_returns:
  assumes "\<forall>p \<in> set (popped W (gets dr) n).
             fst (decode_packet D p) \<noteq> ble_rsp_connection_disconnect"
    and "recvr_queue_get W (gets dr + n) = Some r"
    and "fst (decode_packet D r) = ble_rsp_connection_disconnect"
    and "apply_handlers D (popped W (gets dr) n @ [r]) (obj dr) = Inr self1"
    and "arg_result (snd (decode_packet D r)) = 0 \<Longrightarrow>
           (\<forall>p \<in> set (popped W (gets dr + n + 1) k).
              fst (decode_packet D p) \<noteq> ble_evt_connection_disconnected) \<and>
           recvr_queue_get W (gets dr + n + 1 + k) = Some ev \<and>
           fst (decode_packet D ev) = ble_evt_connection_disconnected \<and>
           apply_handlers D (popped W (gets dr + n + 1) k @ [ev]) self1 = Inr self2"
  shows "disconnect D W True dr =
     Some (Return ()
       (if arg_result (snd (decode_packet D r)) \<noteq> 0
        then dr\<lparr>obj := self1, gets := gets dr + n + 1,
                sent := sent dr @ [ble_cmd_connection_disconnect (connection_handle (obj dr))]\<rparr>
        else dr\<lparr>obj := self2, gets := gets dr + n + 1 + k + 1,
                sent := sent dr @ [ble_cmd_connection_disconnect (connection_handle (obj dr))]\<rparr>))"
proof -
  let ?dr0 = "send_command (ble_cmd_connection_disconnect (connection_handle (obj dr))) dr"
  let ?none = "None :: 'b option"
  let ?dr1 = "?dr0\<lparr>obj := self1, gets := gets ?dr0 + n + 1,
       clock_reads := (case ?none of None \<Rightarrow> clock_reads ?dr0 | Some t \<Rightarrow> clock_reads ?dr0 + n + 2)\<rparr>"
  have w1: "process_packets_until D W [ble_rsp_connection_disconnect] None BGAPIError ?dr0 =
      Some (Return () ?dr1)"
    by (rule process_packets_until_match) (use assms(1-4) in \<open>simp_all add: send_command_def\<close>)
  have rr: "response_return (obj ?dr1) = arg_result (snd (decode_packet D r))"
    using response_result_last[OF assms(4)] assms(3) by simp
  show ?thesis
  proof (cases "arg_result (snd (decode_packet D r)) = 0")
    case False
    then show ?thesis
      unfolding disconnect_def Let_def
      by (simp only: w1 then_do_Return rr if_True if_False simp_thms)
         (simp add: send_command_def)
  next
    case True
    let ?dr2 = "?dr1\<lparr>obj := self2, gets := gets ?dr1 + k + 1,
       clock_reads := (case ?none of None \<Rightarrow> clock_reads ?dr1 | Some t \<Rightarrow> clock_reads ?dr1 + k + 2)\<rparr>"
    from assms(5)[OF True]
    have b1: "\<forall>p \<in> set (popped W (gets ?dr1) k).
                fst (decode_packet D p) \<notin> set [ble_evt_connection_disconnected]"
      and b2: "recvr_queue_get W (gets ?dr1 + k) = Some ev"
      and b3: "fst (decode_packet D ev) \<in> set [ble_evt_connection_disconnected]"
      and b4: "apply_handlers D (popped W (gets ?dr1) k @ [ev]) (obj ?dr1) = Inr self2"
      by (simp_all add: send_command_def)
    have w2: "process_packets_until D W [ble_evt_connection_disconnected] None BGAPIError ?dr1 =
        Some (Return () ?dr2)"
      by (rule process_packets_until_match[OF b1 b2 b3 b4]) simp
    from True show ?thesis
      unfolding disconnect_def Let_def
      by (simp only: w1 then_do_Return rr w2 if_True if_False simp_thms)
         (simp add: send_command_def)
  qed
qed

lemma packets_loop_blocks:
  "packets_loop D W expected None None exception_type dr = Some r \<Longrightarrow>
   \<forall>j. recvr_queue_get W (gets dr + j) = None \<Longrightarrow> False"
proof (induction D W expected "None :: 'b option" "None :: 'b option" exception_type dr r
    rule: packets_loop.raw_induct[rotated 1, consumes 1, case_names step])
  case (step loop D W expected exception_type dr r)
  have n0: "recvr_queue_get W (gets dr) = None"
    using step(3)[rule_format, of 0] by simp
  have nx: "\<forall>j. recvr_queue_get W (gets (dr\<lparr>gets := Suc (gets dr)\<rparr>) + j) = None"
  proof
    fix j show "recvr_queue_get W (gets (dr\<lparr>gets := Suc (gets dr)\<rparr>) + j) = None"
      using step(3)[rule_format, of "Suc j"] by simp
  qed
  from step(2) n0 have "loop D W expected None None exception_type (dr\<lparr>gets := Suc (gets dr)\<rparr>) = Some r"
    by (simp add: check_timeout_def Let_def)
  from step(1)[OF this nx] show ?case .
qed

lemma process_packets_until_blocks:
  assumes "\<forall>j. recvr_queue_get W (gets dr + j) = None"
  shows "process_packets_until D W expected None exception_type dr = None"
proof (cases "process_packets_until D W expected None exception_type dr")
  case None
  then show ?thesis .
next
  case (Some r)
  then have "packets_loop D W expected None None exception_type dr = Some r"
    by (simp add: process_packets_until_def)
  from packets_loop_blocks[OF this assms] show ?thesis ..
qed

lemma packets_loop_raise_origin:
  "packets_loop D W expected to st exception_type dr = Some (Raise e dr') \<Longrightarrow>
   (e = exception_type ''timed out'' \<and> to \<noteq> None) \<or>
   (\<exists>k p s. gets dr \<le> k \<and> recvr_queue_get W k = Some p \<and>
      packet_handlers D (fst (decode_packet D p)) (snd (decode_packet D p)) s = Inl e)"
proof (induction D W expected to st exception_type dr "Raise e dr' :: unit outcome"
    rule: packets_loop.raw_induct[rotated 1, consumes 1, case_names step])
  case (step loop D W expected to st exception_type dr)
  let ?dr = "snd (check_timeout W to st dr)"
  have g: "gets ?dr = gets dr"
    by (simp add: check_timeout_snd)
  show ?case
  proof (cases "fst (check_timeout W to st dr)")
    case True
    with step(2) show ?thesis
      by (auto simp: check_timeout_fst expired_def split: option.splits)
  next
    case False
    show ?thesis
    proof (cases "recvr_queue_get W (gets dr)")
      case None
      with step(2) False g
      have "loop D W expected to st exception_type (?dr\<lparr>gets := Suc (gets dr)\<rparr>) =
          Some (Raise e dr')"
        by (simp add: Let_def)
      from step(1)[OF this] show ?thesis
        by (auto intro: Suc_leD)
    next
      case (Some p)
      show ?thesis
      proof (cases "packet_handlers D (fst (decode_packet D p)) (snd (decode_packet D p))
          (obj ?dr)")
        case (Inl e')
        with step(2) False g Some have "e' = e"
          by (simp add: Let_def)
        with Inl Some show ?thesis by blast
      next
        case (Inr s')
        with step(2) False g Some
        have "loop D W expected to st exception_type
            (?dr\<lparr>gets := Suc (gets dr), obj := s'\<rparr>) = Some (Raise e dr')"
          by (simp add: Let_def split: if_splits)
        from step(1)[OF this] show ?thesis
          by (auto intro: Suc_leD)
      qed
    qed
  qed
qed


lemma process_packets_until_raise_origin:
  assumes "process_packets_until D W expected None exception_type dr = Some (Raise e dr')"
  shows "\<exists>k p s. recvr_queue_get W k = Some p \<and>
      packet_handlers D (fst (decode_packet D p)) (snd (decode_packet D p)) s = Inl e"
  using assms packets_loop_raise_origin[of D W expected None None exception_type dr e dr']
  by (auto simp: process_packets_until_def)

lemma disconnect_quietly_raise_origin:
  assumes "disconnect D W True dr = Some (Raise e dr')"
  shows "\<exists>k p s. recvr_queue_get W k = Some p \<and>
      packet_handlers D (fst (decode_packet D p)) (snd (decode_packet D p)) s = Inl e"
proof -
  let ?dr0 = "send_command (ble_cmd_connection_disconnect (connection_handle (obj dr))) dr"
  from assms consider
      "process_packets_until D W [ble_rsp_connection_disconnect] None BGAPIError ?dr0 =
         Some (Raise e dr')"
    | d1 where "process_packets_until D W [ble_evt_connection_disconnected] None BGAPIError d1 =
         Some (Raise e dr')"
    by (auto simp: disconnect_def Let_def then_do_def
        split: option.splits outcome.splits if_splits)
  then show ?thesis
    by cases (erule process_packets_until_raise_origin)+
qed

lemma disconnect_quietly_blocks:
  assumes "\<forall>p \<in> set (popped W (gets dr) n).
             fst (decode_packet D p) \<noteq> ble_rsp_connection_disconnect"
    and "recvr_queue_get W (gets dr + n) = Some r"
    and "fst (decode_packet D r) = ble_rsp_connection_disconnect"
    and "apply_handlers D (popped W (gets dr) n @ [r]) (obj dr) = Inr self1"
    and "arg_result (snd (decode_packet D r)) = 0"
    and "\<forall>j. recvr_queue_get W (gets dr + n + 1 + j) = None"
  shows "disconnect D W True dr = None"
proof -
  let ?dr0 = "send_command (ble_cmd_connection_disconnect (connection_handle (obj dr))) dr"
  let ?none = "None :: 'b option"
  let ?dr1 = "?dr0\<lparr>obj := self1, gets := gets ?dr0 + n + 1,
       clock_reads := (case ?none of None \<Rightarrow> clock_reads ?dr0 | Some t \<Rightarrow> clock_reads ?dr0 + n + 2)\<rparr>"
  have w1: "process_packets_until D W [ble_rsp_connection_disconnect] None BGAPIError ?dr0 =
      Some (Return () ?dr1)"
    by (rule process_packets_until_match) (use assms(1-4) in \<open>simp_all add: send_command_def\<close>)
  have rr: "response_return (obj ?dr1) = 0"
    using response_result_last[OF assms(4)] assms(3,5) by simp
  have "\<forall>j. recvr_queue_get W (gets ?dr1 + j) = None"
    using assms(6) by (simp add: send_command_def)
  then have w2: "process_packets_until D W [ble_evt_connection_disconnected] None BGAPIError ?dr1
      = None"
    by (rule process_packets_until_blocks)
  show ?thesis
    unfolding disconnect_def Let_def
    by (simp only: w1 then_do_Return rr w2 if_False simp_thms)
qed

text \<open>
  C3, as the code has it. \<open>disconnect(fail_quietly=True)\<close> never raises on account of the
  result of the disconnect response. Whatever the world does, an exception that leaves
  the call is IndexError, AttributeError or UnicodeDecodeError and was raised by the handler
  of a packet popped during one of its two waits: never \<open>BGAPIError\<close>. Let the response
  arrive, no handler raising before: with a result other than 0 the call returns right
  after the response, the failure being logged; with the result 0 the call goes on to
  wait, without timeout, for the disconnected event, returns once that has arrived, and
  does not end if nothing arrives any more.
\<close>

theorem disconnect_fail_quietly_swallows:
  "(\<forall>e dr'. disconnect D W True dr = Some (Raise e dr') \<longrightarrow>
      (e = IndexError \<or> e = AttributeError \<or> e = UnicodeDecodeError) \<and>
      (\<exists>k p s. recvr_queue_get W k = Some p \<and>
         packet_handlers D (fst (decode_packet D p)) (snd (decode_packet D p)) s = Inl e)) \<and>
   ((\<forall>p \<in> set (popped W (gets dr) n).
       fst (decode_packet D p) \<noteq> ble_rsp_connection_disconnect) \<and>
    recvr_queue_get W (gets dr + n) = Some r \<and>
    fst (decode_packet D r) = ble_rsp_connection_disconnect \<and>
    apply_handlers D (popped W (gets dr) n @ [r]) (obj dr) = Inr self1 \<longrightarrow>
      (arg_result (snd (decode_packet D r)) \<noteq> 0 \<longrightarrow>
         disconnect D W True dr =
           Some (Return ()
             (dr\<lparr>obj := self1, gets := gets dr + n + 1,
                 sent := sent dr @
                   [ble_cmd_connection_disconnect (connection_handle (obj dr))]\<rparr>))) \<and>
      (arg_result (snd (decode_packet D r)) = 0 \<longrightarrow>
         ((\<forall>p \<in> set (popped W (gets dr + n + 1) k).
             fst (decode_packet D p) \<noteq> ble_evt_connection_disconnected) \<and>
          recvr_queue_get W (gets dr + n + 1 + k) = Some ev \<and>
          fst (decode_packet D ev) = ble_evt_connection_disconnected \<and>
          apply_handlers D (popped W (gets dr + n + 1) k @ [ev]) self1 = Inr self2 \<longrightarrow>
            disconnect D W True dr =
              Some (Return ()
                (dr\<lparr>obj := self2, gets := gets dr + n + 1 + k + 1,
                    sent := sent dr @
                      [ble_cmd_connection_disconnect (connection_handle (obj dr))]\<rparr>))) \<and>
         ((\<forall>j. recvr_queue_get W (gets dr + n + 1 + j) = None) \<longrightarrow>
            disconnect D W True dr = None)))"
proof -
  have A: "\<forall>e dr'. disconnect D W True dr = Some (Raise e dr') \<longrightarrow>
      (e = IndexError \<or> e = AttributeError \<or> e = UnicodeDecodeError) \<and>
      (\<exists>k p s. recvr_queue_get W k = Some p \<and>
         packet_handlers D (fst (decode_packet D p)) (snd (decode_packet D p)) s = Inl e)"
    using disconnect_quietly_raises[of D W dr] disconnect_quietly_raise_origin[of D W dr]
    by (simp add: handler_error_def)
  have B: "(arg_result (snd (decode_packet D r)) \<noteq> 0 \<longrightarrow>
         disconnect D W True dr =
           Some (Return ()
             (dr\<lparr>obj := self1, gets := gets dr + n + 1,
                 sent := sent dr @
                   [ble_cmd_connection_disconnect (connection_handle (obj dr))]\<rparr>))) \<and>
      (arg_result (snd (decode_packet D r)) = 0 \<longrightarrow>
         ((\<forall>p \<in> set (popped W (gets dr + n + 1) k).
             fst (decode_packet D p) \<noteq> ble_evt_connection_disconnected) \<and>
          recvr_queue_get W (gets dr + n + 1 + k) = Some ev \<and>
          fst (decode_packet D ev) = ble_evt_connection_disconnected \<and>
          apply_handlers D (popped W (gets dr + n + 1) k @ [ev]) self1 = Inr self2 \<longrightarrow>
            disconnect D W True dr =
              Some (Return ()
                (dr\<lparr>obj := self2, gets := gets dr + n + 1 + k + 1,
                    sent := sent dr @
                      [ble_cmd_connection_disconnect (connection_handle (obj dr))]\<rparr>))) \<and>
         ((\<forall>j. recvr_queue_get W (gets dr + n + 1 + j) = None) \<longrightarrow>
            disconnect D W True dr = None))"
    if h: "\<forall>p \<in> set (popped W (gets dr) n).
         fst (decode_packet D p) \<noteq> ble_rsp_connection_disconnect"
      "recvr_queue_get W (gets dr + n) = Some r"
      "fst (decode_packet D r) = ble_rsp_connection_disconnect"
      "apply_handlers D (popped W (gets dr) n @ [r]) (obj dr) = Inr self1"
  proof (cases "arg_result (snd (decode_packet D r)) = 0")
    case False
    with disconnect_quietly_returns[OF h, of k ev self2] show ?thesis
      by simp
  next
    case True
    have ret: "disconnect D W True dr =
              Some (Return ()
                (dr\<lparr>obj := self2, gets := gets dr + n + 1 + k + 1,
                    sent := sent dr @
                      [ble_cmd_connection_disconnect (connection_handle (obj dr))]\<rparr>))"
      if "(\<forall>p \<in> set (popped W (gets dr + n + 1) k).
             fst (decode_packet D p) \<noteq> ble_evt_connection_disconnected) \<and>
          recvr_queue_get W (gets dr + n + 1 + k) = Some ev \<and>
          fst (decode_packet D ev) = ble_evt_connection_disconnected \<and>
          apply_handlers D (popped W (gets dr + n + 1) k @ [ev]) self1 = Inr self2"
      using disconnect_quietly_returns[OF h, of k ev self2] that True by simp
    have blk: "disconnect D W True dr = None"
      if "\<forall>j. recvr_queue_get W (gets dr + n + 1 + j) = None"
      using disconnect_quietly_blocks[OF h True that] .
    from True ret blk show ?thesis by blast
  qed
  from A B show ?thesis by blast
qed

theorem disconnect_fail_quietly_swallows_witness:
  "disconnect example_deps
     (scripted [Some (ble_rsp_connection_disconnect, no_args\<lparr>arg_result := 390\<rparr>)]
        (\<lambda>k. int k))
     True new_driver =
   Some (Return ()
     (new_driver\<lparr>obj := BGAPIBackend_init\<lparr>response_return := 390\<rparr>, gets := 1,
         sent := [ble_cmd_connection_disconnect 0]\<rparr>)) \<and>
   disconnect example_deps
     (scripted [Some (ble_rsp_connection_disconnect, no_args), None,
                Some (ble_evt_connection_disconnected, no_args\<lparr>arg_reason := 534\<rparr>)]
        (\<lambda>k. int k))
     True new_driver =
   Some (Return ()
     (new_driver\<lparr>obj := BGAPIBackend_init\<lparr>event_return := 534\<rparr>, gets := 3,
         sent := [ble_cmd_connection_disconnect 0]\<rparr>)) \<and>
   disconnect example_deps
     (scripted [Some (ble_rsp_connection_disconnect, no_args)] (\<lambda>k. int k))
     True new_driver = None"
proof -
  let ?r1 = "(ble_rsp_connection_disconnect, no_args\<lparr>arg_result := 390\<rparr>)"
  let ?r0 = "(ble_rsp_connection_disconnect, no_args)"
  let ?ev = "(ble_evt_connection_disconnected, no_args\<lparr>arg_reason := 534\<rparr>)"
  let ?W1 = "scripted [Some ?r1] (\<lambda>k. int k)"
  let ?W2 = "scripted [Some ?r0, None, Some ?ev] (\<lambda>k. int k)"
  let ?W3 = "scripted [Some ?r0] (\<lambda>k. int k)"
  have a: "disconnect example_deps ?W1 True new_driver =
     Some (Return ()
       (new_driver\<lparr>obj := BGAPIBackend_init\<lparr>response_return := 390\<rparr>, gets := 1,
         sent := [ble_cmd_connection_disconnect 0]\<rparr>))"
    using disconnect_fail_quietly_swallows[where D = example_deps and W = ?W1
        and dr = new_driver and n = 0 and r = ?r1
        and ?self1.0 = "BGAPIBackend_init\<lparr>response_return := 390\<rparr>"
        and k = 0 and ev = ?r0 and ?self2.0 = BGAPIBackend_init]
    by (simp add: scripted_def popped_def upt_rec new_driver_def example_deps_def
        BGAPIBackend_init_def no_args_def handler_defs)
  have b: "disconnect example_deps ?W2 True new_driver =
     Some (Return ()
       (new_driver\<lparr>obj := BGAPIBackend_init\<lparr>event_return := 534\<rparr>, gets := 3,
         sent := [ble_cmd_connection_disconnect 0]\<rparr>))"
    using disconnect_fail_quietly_swallows[where D = example_deps and W = ?W2
        and dr = new_driver and n = 0 and r = ?r0 and ?self1.0 = BGAPIBackend_init
        and k = 1 and ev = ?ev
        and ?self2.0 = "BGAPIBackend_init\<lparr>event_return := 534\<rparr>"]
    by (simp add: scripted_def popped_def upt_rec new_driver_def example_deps_def
        BGAPIBackend_init_def no_args_def handler_defs)
  have c: "disconnect example_deps ?W3 True new_driver = None"
    using disconnect_fail_quietly_swallows[where D = example_deps and W = ?W3
        and dr = new_driver and n = 0 and r = ?r0 and ?self1.0 = BGAPIBackend_init
        and k = 0 and ev = ?r0 and ?self2.0 = BGAPIBackend_init]
    by (simp add: scripted_def popped_def upt_rec new_driver_def example_deps_def
        BGAPIBackend_init_def no_args_def handler_defs)
  from a b c show ?thesis by (intro conjI)
qed

text \<open>
  The call does raise: a scan response whose data has a field of unknown type, popped while
  the call waits for its response, makes the scan response handler raise AttributeError,
  which nothing catches.
\<close>

theorem disconnect_fail_quietly_counterexample:
  "disconnect example_deps
     (scripted [Some (ble_evt_gap_scan_response, no_args\<lparr>arg_data := [2, 99, 0]\<rparr>),
                Some (ble_rsp_connection_disconnect, no_args\<lparr>arg_result := 390\<rparr>)]
        (\<lambda>k. int k))
     True new_driver =
   Some (Raise AttributeError
     (new_driver\<lparr>gets := 1, sent := [ble_cmd_connection_disconnect 0]\<rparr>))"
  unfolding disconnect_def process_packets_until_def Let_def
  by (subst packets_loop.simps)
     (simp add: check_timeout_def scripted_def new_driver_def example_deps_def
        BGAPIBackend_init_def no_args_def send_command_def
        ble_evt_gap_scan_response_handler_def scan_rsp_data_def end_of_field_def Let_def)

subsection \<open>Attribute discovery\<close>

lemma on_last_Inr:
  "xs \<noteq> [] \<Longrightarrow> f (last xs) = Inr y \<Longrightarrow> on_last f xs = Inr (butlast xs @ [y])"
  by (induction f xs rule: on_last.induct) auto

lemma on_last_Inl:
  "on_last f xs = Inl e \<longleftrightarrow> (xs = [] \<and> e = IndexError) \<or> (xs \<noteq> [] \<and> f (last xs) = Inl e)"
  by (induction f xs rule: on_last.induct) (auto split: sum.splits)

lemma on_last_characteristic_Inr:
  "svcs \<noteq> [] \<Longrightarrow> characteristics (last svcs) \<noteq> [] \<Longrightarrow>
   on_last_characteristic f svcs =
     Inr (butlast svcs @
       [(last svcs)\<lparr>characteristics :=
          butlast (characteristics (last svcs)) @ [f (last (characteristics (last svcs)))]\<rparr>])"
  unfolding on_last_characteristic_def
  by (rule on_last_Inr) (simp_all add: on_last_Inr)

lemma on_last_characteristic_Inl:
  "on_last_characteristic f svcs = Inl e \<longleftrightarrow>
     e = IndexError \<and> (svcs = [] \<or> characteristics (last svcs) = [])"
  unfolding on_last_characteristic_def
  by (auto simp: on_last_Inl split: sum.splits)


lemma found_128:
  "Uuid_len D (rev (arg_uuid a)) = 128 \<Longrightarrow>
   ble_evt_attclient_find_information_found_handler D a self =
     (case on_last_characteristic
             (\<lambda>c. c\<lparr>custom := True, characteristic_uuid := rev (arg_uuid a),
                     characteristic_handle := arg_chrhandle a\<rparr>) (services self) of
        Inl e \<Rightarrow> Inl e
      | Inr svcs \<Rightarrow> Inr (self\<lparr>services := svcs\<rparr>))"
  by (simp add: ble_evt_attclient_find_information_found_handler_def Let_def)

lemma found_characteristic_type:
  "recognized_characteristic_type D a ct \<Longrightarrow>
   ble_evt_attclient_find_information_found_handler D a self =
     (case on_last_characteristic (\<lambda>c. c\<lparr>characteristic_type := Some ct\<rparr>) (services self) of
        Inl e \<Rightarrow> Inl e
      | Inr svcs \<Rightarrow> Inr (self\<lparr>services := svcs\<rparr>))"
  by (simp add: ble_evt_attclient_find_information_found_handler_def Let_def
      recognized_characteristic_type_def)

lemma found_descriptor:
  "recognized_descriptor D a dt \<Longrightarrow>
   ble_evt_attclient_find_information_found_handler D a self =
     (case on_last_characteristic
             (\<lambda>c. c\<lparr>descriptors := descriptors c @
                      [new_Descriptor (arg_chrhandle a) (rev (arg_uuid a)) dt]\<rparr>)
             (services self) of
        Inl e \<Rightarrow> Inl e
      | Inr svcs \<Rightarrow> Inr (self\<lparr>services := svcs\<rparr>))"
  by (simp add: ble_evt_attclient_find_information_found_handler_def Let_def
      recognized_descriptor_def)

lemma found_characteristic:
  "recognized_attribute D a characteristic \<Longrightarrow>
   ble_evt_attclient_find_information_found_handler D a self =
     (case on_last (\<lambda>sv. Inr (sv\<lparr>characteristics := characteristics sv @
                      [new_Characteristic (arg_chrhandle a) (rev (arg_uuid a))]\<rparr>))
             (services self) of
        Inl e \<Rightarrow> Inl e
      | Inr svcs \<Rightarrow> Inr (self\<lparr>services := svcs\<rparr>))"
  by (simp add: ble_evt_attclient_find_information_found_handler_def Let_def
      recognized_attribute_def)

lemma found_service:
  "recognized_attribute D a primary_service \<Longrightarrow>
   ble_evt_attclient_find_information_found_handler D a self =
     Inr (self\<lparr>services := services self @
            [new_Service (arg_chrhandle a) (rev (arg_uuid a)) False]\<rparr>)"
  "recognized_attribute D a secondary_service \<Longrightarrow>
   ble_evt_attclient_find_information_found_handler D a self =
     Inr (self\<lparr>services := services self @
            [new_Service (arg_chrhandle a) (rev (arg_uuid a)) True]\<rparr>)"
  by (simp_all add: ble_evt_attclient_find_information_found_handler_def Let_def
      recognized_attribute_def)

lemma case_sum_Inl_iff:
  "(case m of Inl e \<Rightarrow> Inl e | Inr x \<Rightarrow> Inr (g x)) = Inl e' \<longleftrightarrow> m = Inl e'"
  by (cases m) simp_all

lemma case_sum_Inr_ex:
  "(\<exists>y. (case m of Inl e \<Rightarrow> Inl e | Inr x \<Rightarrow> Inr (g x)) = Inr y) \<longleftrightarrow> (\<exists>x. m = Inr x)"
  by (cases m) simp_all

lemma found_last_characteristic:
  assumes "ble_evt_attclient_find_information_found_handler D a self =
     (case on_last_characteristic f (services self) of
        Inl e \<Rightarrow> Inl e
      | Inr svcs \<Rightarrow> Inr (self\<lparr>services := svcs\<rparr>))"
  shows "(ble_evt_attclient_find_information_found_handler D a self = Inl IndexError \<longleftrightarrow>
         services self = [] \<or> characteristics (last (services self)) = []) \<and>
      (services self \<noteq> [] \<and> characteristics (last (services self)) \<noteq> [] \<longrightarrow>
         (\<exists>self'. ble_evt_attclient_find_information_found_handler D a self = Inr self'))"
  unfolding assms
  by (auto simp: case_sum_Inl_iff on_last_characteristic_Inl on_last_characteristic_Inr)

lemma found_only_IndexError:
  "ble_evt_attclient_find_information_found_handler D a self = Inl e \<Longrightarrow> e = IndexError"
  unfolding ble_evt_attclient_find_information_found_handler_def Let_def
  by (simp add: on_last_characteristic_Inl on_last_Inl
      split: if_splits option.splits sum.splits)

lemma on_last_total:
  "xs \<noteq> [] \<Longrightarrow> on_last (\<lambda>x. Inr (g x)) xs = Inr (butlast xs @ [g (last xs)])"
  by (rule on_last_Inr) simp_all

lemma step_service:
  assumes "recognized_attribute D a primary_service"
  shows "(case ble_evt_attclient_find_information_found_handler D a self of
            Inl e \<Rightarrow> self | Inr self' \<Rightarrow> self') =
         self\<lparr>services := services self @
            [new_Service (arg_chrhandle a) (rev (arg_uuid a)) False]\<rparr>"
  by (simp add: found_service(1)[OF assms])

lemma step_characteristic:
  assumes "recognized_attribute D a characteristic" and "services self = xs @ [sv]"
  shows "(case ble_evt_attclient_find_information_found_handler D a self of
            Inl e \<Rightarrow> self | Inr self' \<Rightarrow> self') =
         self\<lparr>services := xs @ [sv\<lparr>characteristics := characteristics sv @
            [new_Characteristic (arg_chrhandle a) (rev (arg_uuid a))]\<rparr>]\<rparr>"
  by (simp add: found_characteristic[OF assms(1)] on_last_total assms(2))

lemma step_descriptor:
  assumes "recognized_descriptor D a dt" and "services self = xs @ [sv]"
    and "characteristics sv = cs @ [c]"
  shows "(case ble_evt_attclient_find_information_found_handler D a self of
            Inl e \<Rightarrow> self | Inr self' \<Rightarrow> self') =
         self\<lparr>services := xs @ [sv\<lparr>characteristics := cs @ [c\<lparr>descriptors := descriptors c @
            [new_Descriptor (arg_chrhandle a) (rev (arg_uuid a)) dt]\<rparr>]\<rparr>]\<rparr>"
  by (simp add: found_descriptor[OF assms(1)] on_last_characteristic_Inr assms(2,3))

lemma two_services:
  assumes "services self = []"
    and p1: "recognized_attribute D p1 primary_service"
    and c1: "recognized_attribute D c1 characteristic"
    and d1: "recognized_descriptor D d1 t1"
    and p2: "recognized_attribute D p2 primary_service"
    and c2: "recognized_attribute D c2 characteristic"
    and d2: "recognized_descriptor D d2 t2"
  shows "services (handle_all D
           (map (Pair ble_evt_attclient_find_information_found) [p1, c1, d1, p2, c2, d2]) self) =
     [(new_Service (arg_chrhandle p1) (rev (arg_uuid p1)) False)
        \<lparr>characteristics :=
           [(new_Characteristic (arg_chrhandle c1) (rev (arg_uuid c1)))
              \<lparr>descriptors := [new_Descriptor (arg_chrhandle d1) (rev (arg_uuid d1)) t1]\<rparr>]\<rparr>,
      (new_Service (arg_chrhandle p2) (rev (arg_uuid p2)) False)
        \<lparr>characteristics :=
           [(new_Characteristic (arg_chrhandle c2) (rev (arg_uuid c2)))
              \<lparr>descriptors := [new_Descriptor (arg_chrhandle d2) (rev (arg_uuid d2)) t2]\<rparr>]\<rparr>]"
proof -
  let ?h = "\<lambda>a s. case ble_evt_attclient_find_information_found_handler D a s of
            Inl e \<Rightarrow> s | Inr s' \<Rightarrow> s'"
  let ?S1 = "new_Service (arg_chrhandle p1) (rev (arg_uuid p1)) False"
  let ?C1 = "new_Characteristic (arg_chrhandle c1) (rev (arg_uuid c1))"
  let ?D1 = "new_Descriptor (arg_chrhandle d1) (rev (arg_uuid d1)) t1"
  let ?S2 = "new_Service (arg_chrhandle p2) (rev (arg_uuid p2)) False"
  let ?C2 = "new_Characteristic (arg_chrhandle c2) (rev (arg_uuid c2))"
  let ?D2 = "new_Descriptor (arg_chrhandle d2) (rev (arg_uuid d2)) t2"
  let ?T1 = "?S1\<lparr>characteristics := [?C1\<lparr>descriptors := [?D1]\<rparr>]\<rparr>"
  have s1: "?h p1 self = self\<lparr>services := [?S1]\<rparr>"
    using step_service[OF p1, of self] assms(1) by simp
  have s2: "?h c1 (self\<lparr>services := [?S1]\<rparr>) = self\<lparr>services := [?S1\<lparr>characteristics := [?C1]\<rparr>]\<rparr>"
    using step_characteristic[OF c1, of "self\<lparr>services := [?S1]\<rparr>" "[]" ?S1]
    by (simp add: new_Service_def)
  have s3: "?h d1 (self\<lparr>services := [?S1\<lparr>characteristics := [?C1]\<rparr>]\<rparr>) = self\<lparr>services := [?T1]\<rparr>"
    using step_descriptor[OF d1, of "self\<lparr>services := [?S1\<lparr>characteristics := [?C1]\<rparr>]\<rparr>" "[]"
        "?S1\<lparr>characteristics := [?C1]\<rparr>" "[]" ?C1]
    by (simp add: new_Characteristic_def)
  have s4: "?h p2 (self\<lparr>services := [?T1]\<rparr>) = self\<lparr>services := [?T1, ?S2]\<rparr>"
    using step_service[OF p2, of "self\<lparr>services := [?T1]\<rparr>"] by simp
  have s5: "?h c2 (self\<lparr>services := [?T1, ?S2]\<rparr>) =
      self\<lparr>services := [?T1, ?S2\<lparr>characteristics := [?C2]\<rparr>]\<rparr>"
    using step_characteristic[OF c2, of "self\<lparr>services := [?T1, ?S2]\<rparr>" "[?T1]" ?S2]
    by (simp add: new_Service_def)
  have s6: "?h d2 (self\<lparr>services := [?T1, ?S2\<lparr>characteristics := [?C2]\<rparr>]\<rparr>) =
      self\<lparr>services := [?T1, ?S2\<lparr>characteristics := [?C2\<lparr>descriptors := [?D2]\<rparr>]\<rparr>]\<rparr>"
    using step_descriptor[OF d2, of "self\<lparr>services := [?T1, ?S2\<lparr>characteristics := [?C2]\<rparr>]\<rparr>"
        "[?T1]" "?S2\<lparr>characteristics := [?C2]\<rparr>" "[]" ?C2]
    by (simp add: new_Characteristic_def)
  show ?thesis
    by (simp add: s1 s2 s3 s4 s5 s6)
qed

text \<open>
  C6. For an event whose UUID is recognized as a primary or a secondary service, the
  handler appends a new Service to \<open>self._services\<close>; for the UUID of a characteristic
  declaration it appends a new Characteristic to the last Service; for a recognized
  descriptor UUID it appends a Descriptor to the last Characteristic of the last Service
  (the last Service, and for a descriptor its last Characteristic, being there).
  So the events primary service, characteristic, descriptor, twice over, starting from
  no services, leave exactly two Services in the order of arrival, each with exactly one
  Characteristic that has exactly one Descriptor.
\<close>

theorem find_information_found_accumulates:
  "(recognized_attribute D a primary_service \<longrightarrow>
      ble_evt_attclient_find_information_found_handler D a self =
        Inr (self\<lparr>services := services self @
               [new_Service (arg_chrhandle a) (rev (arg_uuid a)) False]\<rparr>)) \<and>
   (recognized_attribute D a secondary_service \<longrightarrow>
      ble_evt_attclient_find_information_found_handler D a self =
        Inr (self\<lparr>services := services self @
               [new_Service (arg_chrhandle a) (rev (arg_uuid a)) True]\<rparr>)) \<and>
   (recognized_attribute D a characteristic \<and> services self \<noteq> [] \<longrightarrow>
      ble_evt_attclient_find_information_found_handler D a self =
        Inr (self\<lparr>services := butlast (services self) @
               [(last (services self))\<lparr>characteristics :=
                   characteristics (last (services self)) @
                   [new_Characteristic (arg_chrhandle a) (rev (arg_uuid a))]\<rparr>]\<rparr>)) \<and>
   (recognized_descriptor D a dt \<and> services self \<noteq> [] \<and>
    characteristics (last (services self)) \<noteq> [] \<longrightarrow>
      ble_evt_attclient_find_information_found_handler D a self =
        Inr (self\<lparr>services := butlast (services self) @
               [(last (services self))\<lparr>characteristics :=
                   butlast (characteristics (last (services self))) @
                   [(last (characteristics (last (services self))))\<lparr>descriptors :=
                       descriptors (last (characteristics (last (services self)))) @
                       [new_Descriptor (arg_chrhandle a) (rev (arg_uuid a)) dt]\<rparr>]\<rparr>]\<rparr>)) \<and>
   (services self = [] \<and>
    recognized_attribute D p1 primary_service \<and> recognized_attribute D c1 characteristic \<and>
    recognized_descriptor D d1 t1 \<and>
    recognized_attribute D p2 primary_service \<and> recognized_attribute D c2 characteristic \<and>
    recognized_descriptor D d2 t2 \<longrightarrow>
      services (handle_all D
        (map (Pair ble_evt_attclient_find_information_found) [p1, c1, d1, p2, c2, d2]) self) =
      [(new_Service (arg_chrhandle p1) (rev (arg_uuid p1)) False)
         \<lparr>characteristics :=
            [(new_Characteristic (arg_chrhandle c1) (rev (arg_uuid c1)))
               \<lparr>descriptors := [new_Descriptor (arg_chrhandle d1) (rev (arg_uuid d1)) t1]\<rparr>]\<rparr>,
       (new_Service (arg_chrhandle p2) (rev (arg_uuid p2)) False)
         \<lparr>characteristics :=
            [(new_Characteristic (arg_chrhandle c2) (rev (arg_uuid c2)))
               \<lparr>descriptors := [new_Descriptor (arg_chrhandle d2) (rev (arg_uuid d2)) t2]\<rparr>]\<rparr>])"
proof -
  have A: "recognized_attribute D a characteristic \<and> services self \<noteq> [] \<longrightarrow>
      ble_evt_attclient_find_information_found_handler D a self =
        Inr (self\<lparr>services := butlast (services self) @
               [(last (services self))\<lparr>characteristics :=
                   characteristics (last (services self)) @
                   [new_Characteristic (arg_chrhandle a) (rev (arg_uuid a))]\<rparr>]\<rparr>)"
    by (auto simp: found_characteristic[of D a] on_last_total)
  have B: "recognized_descriptor D a dt \<and> services self \<noteq> [] \<and>
    characteristics (last (services self)) \<noteq> [] \<longrightarrow>
      ble_evt_attclient_find_information_found_handler D a self =
        Inr (self\<lparr>services := butlast (services self) @
               [(last (services self))\<lparr>characteristics :=
                   butlast (characteristics (last (services self))) @
                   [(last (characteristics (last (services self))))\<lparr>descriptors :=
                       descriptors (last (characteristics (last (services self)))) @
                       [new_Descriptor (arg_chrhandle a) (rev (arg_uuid a)) dt]\<rparr>]\<rparr>]\<rparr>)"
    by (auto simp: found_descriptor[of D a dt] on_last_characteristic_Inr)
  show ?thesis
    using A B found_service[of D a self] two_services[of self D p1 c1 d1 t1 p2 c2 d2 t2]
    by blast
qed

theorem find_information_found_accumulates_witness:
  "services (handle_all example_deps
     (map (Pair ble_evt_attclient_find_information_found)
        [no_args\<lparr>arg_chrhandle := 1, arg_uuid := [0, 40]\<rparr>,
         no_args\<lparr>arg_chrhandle := 2, arg_uuid := [3, 40]\<rparr>,
         no_args\<lparr>arg_chrhandle := 4, arg_uuid := [2, 41]\<rparr>,
         no_args\<lparr>arg_chrhandle := 5, arg_uuid := [0, 40]\<rparr>,
         no_args\<lparr>arg_chrhandle := 6, arg_uuid := [3, 40]\<rparr>,
         no_args\<lparr>arg_chrhandle := 8, arg_uuid := [1, 41]\<rparr>]) BGAPIBackend_init) =
   [\<lparr>service_handle = 1, service_uuid = [40, 0], secondary = False,
     characteristics =
       [\<lparr>characteristic_handle = 2, characteristic_uuid = [40, 3], custom = False,
         characteristic_type = None,
         descriptors =
           [\<lparr>descriptor_handle = 4, descriptor_uuid = [41, 2],
             descriptor_type = client_characteristic_configuration\<rparr>]\<rparr>]\<rparr>,
    \<lparr>service_handle = 5, service_uuid = [40, 0], secondary = False,
     characteristics =
       [\<lparr>characteristic_handle = 6, characteristic_uuid = [40, 3], custom = False,
         characteristic_type = None,
         descriptors =
           [\<lparr>descriptor_handle = 8, descriptor_uuid = [41, 1],
             descriptor_type =
               other_descriptor_type ''characteristic_user_description''\<rparr>]\<rparr>]\<rparr>]"
proof -
  let ?p1 = "no_args\<lparr>arg_chrhandle := 1, arg_uuid := [0, 40]\<rparr>"
  let ?c1 = "no_args\<lparr>arg_chrhandle := 2, arg_uuid := [3, 40]\<rparr>"
  let ?d1 = "no_args\<lparr>arg_chrhandle := 4, arg_uuid := [2, 41]\<rparr>"
  let ?p2 = "no_args\<lparr>arg_chrhandle := 5, arg_uuid := [0, 40]\<rparr>"
  let ?c2 = "no_args\<lparr>arg_chrhandle := 6, arg_uuid := [3, 40]\<rparr>"
  let ?d2 = "no_args\<lparr>arg_chrhandle := 8, arg_uuid := [1, 41]\<rparr>"
  have h: "services BGAPIBackend_init = [] \<and>
    recognized_attribute example_deps ?p1 primary_service \<and>
    recognized_attribute example_deps ?c1 characteristic \<and>
    recognized_descriptor example_deps ?d1 client_characteristic_configuration \<and>
    recognized_attribute example_deps ?p2 primary_service \<and>
    recognized_attribute example_deps ?c2 characteristic \<and>
    recognized_descriptor example_deps ?d2
      (other_descriptor_type ''characteristic_user_description'')"
    by (simp add: recognized_attribute_def recognized_descriptor_def example_deps_def
        no_args_def BGAPIBackend_init_def)
  have "services (handle_all example_deps
     (map (Pair ble_evt_attclient_find_information_found) [?p1, ?c1, ?d1, ?p2, ?c2, ?d2])
     BGAPIBackend_init) =
      [(new_Service (arg_chrhandle ?p1) (rev (arg_uuid ?p1)) False)
         \<lparr>characteristics :=
            [(new_Characteristic (arg_chrhandle ?c1) (rev (arg_uuid ?c1)))
               \<lparr>descriptors := [new_Descriptor (arg_chrhandle ?d1) (rev (arg_uuid ?d1))
                   client_characteristic_configuration]\<rparr>]\<rparr>,
       (new_Service (arg_chrhandle ?p2) (rev (arg_uuid ?p2)) False)
         \<lparr>characteristics :=
            [(new_Characteristic (arg_chrhandle ?c2) (rev (arg_uuid ?c2)))
               \<lparr>descriptors := [new_Descriptor (arg_chrhandle ?d2) (rev (arg_uuid ?d2))
                   (other_descriptor_type ''characteristic_user_description'')]\<rparr>]\<rparr>]"
    using h find_information_found_accumulates[where D = example_deps
      and self = BGAPIBackend_init and ?p1.0 = ?p1 and ?c1.0 = ?c1 and ?d1.0 = ?d1
      and ?t1.0 = client_characteristic_configuration
      and ?p2.0 = ?p2 and ?c2.0 = ?c2 and ?d2.0 = ?d2
      and ?t2.0 = "other_descriptor_type ''characteristic_user_description''"
      and a = ?p1 and dt = client_characteristic_configuration]
    by blast
  then show ?thesis
    by (simp add: no_args_def new_Service_def new_Characteristic_def new_Descriptor_def)
qed

text \<open>
  C10. The handler is partial. For a UUID of length 128, a characteristic type or a
  descriptor type it indexes the last Characteristic of the last Service, and raises
  IndexError exactly when there is no Service or the last Service has no Characteristic;
  for a characteristic declaration it indexes the last Service only, and raises IndexError
  exactly when there is no Service. It raises nothing else, and with a Service (and, where
  one is indexed, a Characteristic) in place it returns.
\<close>

theorem find_information_found_partial:
  "(Uuid_len D (rev (arg_uuid a)) = 128 \<or> recognized_characteristic_type D a ct \<or>
    recognized_descriptor D a dt \<longrightarrow>
      (ble_evt_attclient_find_information_found_handler D a self = Inl IndexError \<longleftrightarrow>
         services self = [] \<or> characteristics (last (services self)) = []) \<and>
      (services self \<noteq> [] \<and> characteristics (last (services self)) \<noteq> [] \<longrightarrow>
         (\<exists>self'. ble_evt_attclient_find_information_found_handler D a self = Inr self'))) \<and>
   (recognized_attribute D a characteristic \<longrightarrow>
      (ble_evt_attclient_find_information_found_handler D a self = Inl IndexError \<longleftrightarrow>
         services self = []) \<and>
      (services self \<noteq> [] \<longrightarrow>
         (\<exists>self'. ble_evt_attclient_find_information_found_handler D a self = Inr self'))) \<and>
   (\<forall>e. ble_evt_attclient_find_information_found_handler D a self = Inl e \<longrightarrow> e = IndexError)"
proof -
  have A: "(ble_evt_attclient_find_information_found_handler D a self = Inl IndexError \<longleftrightarrow>
         services self = [] \<or> characteristics (last (services self)) = []) \<and>
      (services self \<noteq> [] \<and> characteristics (last (services self)) \<noteq> [] \<longrightarrow>
         (\<exists>self'. ble_evt_attclient_find_information_found_handler D a self = Inr self'))"
    if "Uuid_len D (rev (arg_uuid a)) = 128 \<or> recognized_characteristic_type D a ct \<or>
      recognized_descriptor D a dt"
  proof -
    from that have "\<exists>f. ble_evt_attclient_find_information_found_handler D a self =
       (case on_last_characteristic f (services self) of
          Inl e \<Rightarrow> Inl e
        | Inr svcs \<Rightarrow> Inr (self\<lparr>services := svcs\<rparr>))"
      using found_128 found_characteristic_type found_descriptor by blast
    then obtain f where "ble_evt_attclient_find_information_found_handler D a self =
       (case on_last_characteristic f (services self) of
          Inl e \<Rightarrow> Inl e
        | Inr svcs \<Rightarrow> Inr (self\<lparr>services := svcs\<rparr>))" ..
    then show ?thesis by (rule found_last_characteristic)
  qed
  have B: "(ble_evt_attclient_find_information_found_handler D a self = Inl IndexError \<longleftrightarrow>
         services self = []) \<and>
      (services self \<noteq> [] \<longrightarrow>
         (\<exists>self'. ble_evt_attclient_find_information_found_handler D a self = Inr self'))"
    if r: "recognized_attribute D a characteristic"
    unfolding found_characteristic[OF r]
    by (auto simp: case_sum_Inl_iff on_last_Inl on_last_Inr)
  have C: "\<forall>e. ble_evt_attclient_find_information_found_handler D a self = Inl e \<longrightarrow>
      e = IndexError"
    using found_only_IndexError by blast
  from A B C show ?thesis by blast
qed

theorem find_information_found_partial_witness:
  "recognized_descriptor example_deps (no_args\<lparr>arg_chrhandle := 4, arg_uuid := [2, 41]\<rparr>)
     client_characteristic_configuration \<and>
   ble_evt_attclient_find_information_found_handler example_deps
     (no_args\<lparr>arg_chrhandle := 4, arg_uuid := [2, 41]\<rparr>) BGAPIBackend_init = Inl IndexError \<and>
   recognized_attribute example_deps (no_args\<lparr>arg_chrhandle := 2, arg_uuid := [3, 40]\<rparr>)
     characteristic \<and>
   ble_evt_attclient_find_information_found_handler example_deps
     (no_args\<lparr>arg_chrhandle := 2, arg_uuid := [3, 40]\<rparr>) BGAPIBackend_init = Inl IndexError"
  using find_information_found_partial[where D = example_deps and self = BGAPIBackend_init
      and a = "no_args\<lparr>arg_chrhandle := 4, arg_uuid := [2, 41]\<rparr>"
      and dt = client_characteristic_configuration and ct = "''none''"]
    find_information_found_partial[where D = example_deps and self = BGAPIBackend_init
      and a = "no_args\<lparr>arg_chrhandle := 2, arg_uuid := [3, 40]\<rparr>"
      and dt = client_characteristic_configuration and ct = "''none''"]
  by (simp add: recognized_attribute_def recognized_descriptor_def
      recognized_characteristic_type_def example_deps_def no_args_def BGAPIBackend_init_def)

subsection \<open>Scan responses\<close>

lemma map_of_dict_set:
  "map_of (dict_set d k v) k' = (if k' = k then Some v else map_of d k')"
  by (induction d k v rule: dict_set.induct) auto

lemma scan_response_effect:
  assumes "ble_evt_gap_scan_response_handler D a self = Inr self'"
  shows "\<exists>name dd dev'.
     scan_rsp_data D (arg_data a) = Inr (name, dd) \<and>
     device_at self' a = Some dev' \<and>
     device_name dev' =
       (case device_at self a of None \<Rightarrow> name
        | Some d \<Rightarrow> if device_name d = [] then name else device_name d) \<and>
     map_of (device_packet_data dev') (packet_kind D a) =
       Some (case (case device_at self a of None \<Rightarrow> None
                   | Some d \<Rightarrow> map_of (device_packet_data d) (packet_kind D a)) of
               None \<Rightarrow> dd
             | Some stored \<Rightarrow> if length stored < length dd then dd else stored)"
proof (cases "scan_rsp_data D (arg_data a)")
  case (Inl e)
  with assms show ?thesis
    by (simp add: ble_evt_gap_scan_response_handler_def Let_def)
next
  case (Inr r)
  obtain name dd where r: "r = (name, dd)" by (cases r)
  show ?thesis
  proof (cases "device_at self a")
    case None
    with assms Inr r show ?thesis
      by (auto simp: ble_evt_gap_scan_response_handler_def Let_def device_at_def
          packet_kind_def map_of_dict_set)
  next
    case (Some d)
    show ?thesis
    proof (cases "map_of (device_packet_data d) (packet_kind D a)")
      case None
      with assms Inr r Some show ?thesis
        by (auto simp: ble_evt_gap_scan_response_handler_def Let_def device_at_def
            packet_kind_def map_of_dict_set)
    next
      case (Some stored)
      with assms Inr r \<open>device_at self a = Some d\<close> show ?thesis
        by (auto simp: ble_evt_gap_scan_response_handler_def Let_def device_at_def
            packet_kind_def map_of_dict_set)
    qed
  qed
qed

lemma scan_response_other:
  assumes "ble_evt_gap_scan_response_handler D a self = Inr self'"
    and "rev (arg_sender b) \<noteq> rev (arg_sender a)"
  shows "device_at self' b = device_at self b"
  using assms
  by (auto simp: ble_evt_gap_scan_response_handler_def Let_def device_at_def map_of_dict_set
      split: sum.splits)


lemma scan_response_keeps_name:
  assumes "ble_evt_gap_scan_response_handler D b s = Inr s'"
    and "device_at s a = Some d" and "device_name d \<noteq> []"
  shows "\<exists>d'. device_at s' a = Some d' \<and> device_name d' = device_name d"
proof (cases "rev (arg_sender a) = rev (arg_sender b)")
  case True
  then have eq: "device_at s a = device_at s b" "device_at s' a = device_at s' b"
    by (simp_all add: device_at_def)
  from scan_response_effect[OF assms(1)] assms(2,3) eq show ?thesis
    by auto
next
  case False
  with scan_response_other[OF assms(1), of a] assms(2) show ?thesis
    by simp
qed

text \<open>
  C5. Let two scan response events with the same sender and the same packet type be
  handled one after the other. After the first, the device of that sender has a field map
  stored for the packet type; after the second, the stored map is the field map parsed
  from the second event if that has strictly more fields than the stored one, and the
  stored one as it was otherwise. And a stored device name that is not empty stays as it
  is under every later scan response event: the second event sets the name only if the
  name after the first was empty.
\<close>

theorem scan_response_merge:
  assumes "ble_evt_gap_scan_response_handler D a1 self0 = Inr self1"
    and "ble_evt_gap_scan_response_handler D a2 self1 = Inr self2"
    and "arg_sender a2 = arg_sender a1"
    and "arg_packet_type a2 = arg_packet_type a1"
  shows "(\<exists>name2 dd2 dev1 stored dev2.
      scan_rsp_data D (arg_data a2) = Inr (name2, dd2) \<and>
      device_at self1 a1 = Some dev1 \<and>
      map_of (device_packet_data dev1) (packet_kind D a1) = Some stored \<and>
      device_at self2 a1 = Some dev2 \<and>
      map_of (device_packet_data dev2) (packet_kind D a1) =
        Some (if length stored < length dd2 then dd2 else stored) \<and>
      device_name dev2 = (if device_name dev1 = [] then name2 else device_name dev1)) \<and>
    (\<forall>b s s' d. ble_evt_gap_scan_response_handler D b s = Inr s' \<and>
        device_at s a1 = Some d \<and> device_name d \<noteq> [] \<longrightarrow>
        (\<exists>d'. device_at s' a1 = Some d' \<and> device_name d' = device_name d))"
proof -
  have same: "device_at s a2 = device_at s a1" "packet_kind D a2 = packet_kind D a1" for s
    using assms(3,4) by (simp_all add: device_at_def packet_kind_def)
  from scan_response_effect[OF assms(1)] obtain dev1 stored where
    d1: "device_at self1 a1 = Some dev1"
    and st: "map_of (device_packet_data dev1) (packet_kind D a1) = Some stored"
    by blast
  from scan_response_effect[OF assms(2)] obtain name2 dd2 dev2 where
    p: "scan_rsp_data D (arg_data a2) = Inr (name2, dd2)"
    and d2: "device_at self2 a2 = Some dev2"
    and n2: "device_name dev2 =
       (case device_at self1 a2 of None \<Rightarrow> name2
        | Some d \<Rightarrow> if device_name d = [] then name2 else device_name d)"
    and m2: "map_of (device_packet_data dev2) (packet_kind D a2) =
       Some (case (case device_at self1 a2 of None \<Rightarrow> None
                   | Some d \<Rightarrow> map_of (device_packet_data d) (packet_kind D a2)) of
               None \<Rightarrow> dd2
             | Some stored \<Rightarrow> if length stored < length dd2 then dd2 else stored)"
    by blast
  have d2': "device_at self2 a1 = Some dev2"
    using d2 by (simp add: same)
  have n2': "device_name dev2 = (if device_name dev1 = [] then name2 else device_name dev1)"
    using n2 by (simp add: same d1)
  have m2': "map_of (device_packet_data dev2) (packet_kind D a1) =
        Some (if length stored < length dd2 then dd2 else stored)"
    using m2 by (simp add: same d1 st)
  from p d1 st d2' m2' n2' have first: "\<exists>name2 dd2 dev1 stored dev2.
      scan_rsp_data D (arg_data a2) = Inr (name2, dd2) \<and>
      device_at self1 a1 = Some dev1 \<and>
      map_of (device_packet_data dev1) (packet_kind D a1) = Some stored \<and>
      device_at self2 a1 = Some dev2 \<and>
      map_of (device_packet_data dev2) (packet_kind D a1) =
        Some (if length stored < length dd2 then dd2 else stored) \<and>
      device_name dev2 = (if device_name dev1 = [] then name2 else device_name dev1)"
    by blast
  have second: "\<forall>b s s' d. ble_evt_gap_scan_response_handler D b s = Inr s' \<and>
        device_at s a1 = Some d \<and> device_name d \<noteq> [] \<longrightarrow>
        (\<exists>d'. device_at s' a1 = Some d' \<and> device_name d' = device_name d)"
    using scan_response_keeps_name by blast
  from first second show ?thesis ..
qed

theorem scan_response_merge_witness:
  "ble_evt_gap_scan_response_handler example_deps
     (no_args\<lparr>arg_rssi := - 70, arg_packet_type := 4, arg_sender := [6, 5, 4, 3, 2, 1],
              arg_data := [2, 1, 6]\<rparr>) BGAPIBackend_init =
   Inr (BGAPIBackend_init\<lparr>devices_discovered :=
     [([1, 2, 3, 4, 5, 6],
       \<lparr>device_name = [], device_address = [1, 2, 3, 4, 5, 6], device_rssi = - 70,
        device_packet_data =
          [(Some ''scan_response_packet'', [(''flags'', Bytes [6])])]\<rparr>)]\<rparr>) \<and>
   ble_evt_gap_scan_response_handler example_deps
     (no_args\<lparr>arg_rssi := - 65, arg_packet_type := 4, arg_sender := [6, 5, 4, 3, 2, 1],
              arg_data := [2, 1, 6, 2, 9, 65]\<rparr>)
     (BGAPIBackend_init\<lparr>devices_discovered :=
       [([1, 2, 3, 4, 5, 6],
         \<lparr>device_name = [], device_address = [1, 2, 3, 4, 5, 6], device_rssi = - 70,
          device_packet_data =
            [(Some ''scan_response_packet'', [(''flags'', Bytes [6])])]\<rparr>)]\<rparr>) =
   Inr (BGAPIBackend_init\<lparr>devices_discovered :=
     [([1, 2, 3, 4, 5, 6],
       \<lparr>device_name = ''A'', device_address = [1, 2, 3, 4, 5, 6], device_rssi = - 70,
        device_packet_data =
          [(Some ''scan_response_packet'',
            [(''flags'', Bytes [6]), (''complete_local_name'', Name ''A'')])]\<rparr>)]\<rparr>) \<and>
   ble_evt_gap_scan_response_handler example_deps
     (no_args\<lparr>arg_rssi := - 60, arg_packet_type := 4, arg_sender := [6, 5, 4, 3, 2, 1],
              arg_data := [2, 8, 66]\<rparr>)
     (BGAPIBackend_init\<lparr>devices_discovered :=
       [([1, 2, 3, 4, 5, 6],
         \<lparr>device_name = ''A'', device_address = [1, 2, 3, 4, 5, 6], device_rssi = - 70,
          device_packet_data =
            [(Some ''scan_response_packet'',
              [(''flags'', Bytes [6]), (''complete_local_name'', Name ''A'')])]\<rparr>)]\<rparr>) =
   Inr (BGAPIBackend_init\<lparr>devices_discovered :=
     [([1, 2, 3, 4, 5, 6],
       \<lparr>device_name = ''A'', device_address = [1, 2, 3, 4, 5, 6], device_rssi = - 70,
        device_packet_data =
          [(Some ''scan_response_packet'',
            [(''flags'', Bytes [6]), (''complete_local_name'', Name ''A'')])]\<rparr>)]\<rparr>)"
proof -
  let ?a1 = "no_args\<lparr>arg_rssi := - 70, arg_packet_type := 4, arg_sender := [6, 5, 4, 3, 2, 1],
              arg_data := [2, 1, 6]\<rparr>"
  let ?a2 = "no_args\<lparr>arg_rssi := - 65, arg_packet_type := 4, arg_sender := [6, 5, 4, 3, 2, 1],
              arg_data := [2, 1, 6, 2, 9, 65]\<rparr>"
  let ?a3 = "no_args\<lparr>arg_rssi := - 60, arg_packet_type := 4, arg_sender := [6, 5, 4, 3, 2, 1],
              arg_data := [2, 8, 66]\<rparr>"
  let ?s1 = "BGAPIBackend_init\<lparr>devices_discovered :=
     [([1, 2, 3, 4, 5, 6],
       \<lparr>device_name = [], device_address = [1, 2, 3, 4, 5, 6], device_rssi = - 70,
        device_packet_data =
          [(Some ''scan_response_packet'', [(''flags'', Bytes [6])])]\<rparr>)]\<rparr>"
  let ?s2 = "BGAPIBackend_init\<lparr>devices_discovered :=
     [([1, 2, 3, 4, 5, 6],
       \<lparr>device_name = ''A'', device_address = [1, 2, 3, 4, 5, 6], device_rssi = - 70,
        device_packet_data =
          [(Some ''scan_response_packet'',
            [(''flags'', Bytes [6]), (''complete_local_name'', Name ''A'')])]\<rparr>)]\<rparr>"
  have h1: "ble_evt_gap_scan_response_handler example_deps ?a1 BGAPIBackend_init = Inr ?s1"
    by (simp add: ble_evt_gap_scan_response_handler_def Let_def example_deps_def no_args_def
        BGAPIBackend_init_def scan_rsp_data_def end_of_field_def)
  have h2: "ble_evt_gap_scan_response_handler example_deps ?a2 ?s1 = Inr ?s2"
    by (simp add: ble_evt_gap_scan_response_handler_def Let_def example_deps_def no_args_def
        BGAPIBackend_init_def scan_rsp_data_def end_of_field_def)
  have h3: "ble_evt_gap_scan_response_handler example_deps ?a3 ?s2 = Inr ?s2"
    by (simp add: ble_evt_gap_scan_response_handler_def Let_def example_deps_def no_args_def
        BGAPIBackend_init_def scan_rsp_data_def end_of_field_def)
  have "arg_sender ?a2 = arg_sender ?a1" "arg_packet_type ?a2 = arg_packet_type ?a1"
    by simp_all
  from scan_response_merge[OF h1 h2 this] h1 h2 h3 show ?thesis
    by simp
qed

subsection \<open>Reading the RSSI\<close>

lemma process_packets_until_sent:
  "process_packets_until D W expected timeout exception_type dr = Some r \<Longrightarrow>
   sent (driver_of r) = sent dr"
  by (auto simp: process_packets_until_def split: option.splits dest!: packets_loop_sent)

lemma check_connection_cases:
  "check_connection True dr =
     (if connected (obj dr) then Some (Return () dr)
      else Some (Raise (NotConnectedError ''Not connected'') dr))"
  by (simp add: check_connection_def)

lemma get_rssi_once_cases:
  assumes "get_rssi_once D W dr = Some out"
  shows "(out = Raise (NotConnectedError ''Not connected'') dr) \<or>
     (\<exists>r. process_packets_until D W
            [ble_rsp_connection_get_rssi, ble_evt_connection_disconnected] None BGAPIError
            (send_command (ble_cmd_connection_get_rssi (connection_handle (obj dr))) dr) = Some r \<and>
          (case r of
             Raise e dr' \<Rightarrow> out = Raise e dr'
           | Return u dr' \<Rightarrow>
               out = (if connected (obj dr') then Return (response_return (obj dr')) dr'
                      else Raise (NotConnectedError ''Not connected'') dr')))"
  using assms
  by (auto simp: get_rssi_once_def check_connection_cases then_do_def Let_def
      split: if_splits option.splits outcome.splits)

lemma get_rssi_once_driver:
  assumes "get_rssi_once D W dr = Some out"
  shows "sent (driver_of out) = sent dr \<or>
     sent (driver_of out) =
       sent dr @ [ble_cmd_connection_get_rssi (connection_handle (obj dr))]"
proof -
  let ?dr0 = "send_command (ble_cmd_connection_get_rssi (connection_handle (obj dr))) dr"
  from get_rssi_once_cases[OF assms]
  consider "out = Raise (NotConnectedError ''Not connected'') dr"
    | r where "process_packets_until D W
            [ble_rsp_connection_get_rssi, ble_evt_connection_disconnected] None BGAPIError
            ?dr0 = Some r"
        and "case r of
             Raise e dr' \<Rightarrow> out = Raise e dr'
           | Return u dr' \<Rightarrow>
               out = (if connected (obj dr') then Return (response_return (obj dr')) dr'
                      else Raise (NotConnectedError ''Not connected'') dr')"
    by auto
  then show ?thesis
  proof cases
    case 1
    then show ?thesis by simp
  next
    case 2
    from process_packets_until_sent[OF 2(1)]
    have s: "sent (driver_of r) =
        sent dr @ [ble_cmd_connection_get_rssi (connection_handle (obj dr))]"
      by (simp add: send_command_def)
    from 2(2) have "driver_of out = driver_of r"
      by (cases r) (simp_all split: if_splits)
    with s show ?thesis by simp
  qed
qed

lemma get_rssi_once_sent:
  assumes "get_rssi_once D W dr = Some out"
  shows "rssi_commands (driver_of out) \<le> rssi_commands dr + 1"
  using get_rssi_once_driver[OF assms]
  by (auto simp: rssi_commands_def)

lemma get_rssi_once_raises:
  assumes "get_rssi_once D W dr = Some (Raise e dr')"
  shows "e \<noteq> BGAPIError msg"
proof -
  from get_rssi_once_cases[OF assms]
  consider "e = NotConnectedError ''Not connected''"
    | r where "process_packets_until D W
            [ble_rsp_connection_get_rssi, ble_evt_connection_disconnected] None BGAPIError
            (send_command (ble_cmd_connection_get_rssi (connection_handle (obj dr))) dr) = Some r"
        and "case r of
             Raise e' dr'' \<Rightarrow> Raise e dr' = (Raise e' dr'' :: int outcome)
           | Return u dr'' \<Rightarrow>
               Raise e dr' = (if connected (obj dr'') then Return (response_return (obj dr'')) dr''
                      else Raise (NotConnectedError ''Not connected'') dr'')"
    by auto
  then show ?thesis
  proof cases
    case 1
    then show ?thesis by simp
  next
    case 2
    show ?thesis
    proof (cases r)
      case (Raise e' dr'')
      with 2 have "handler_error e"
        by (auto dest: process_packets_until_raises)
      then show ?thesis by (auto simp: handler_error_def)
    next
      case (Return u dr'')
      with 2(2) show ?thesis by (auto split: if_splits)
    qed
  qed
qed

lemma get_rssi_attempts_sent:
  "get_rssi_attempts D W is dr = Some out \<Longrightarrow>
   rssi_commands (driver_of out) \<le> rssi_commands dr + length is"
proof (induction "is" arbitrary: dr)
  case Nil
  then show ?case by auto
next
  case (Cons i "is")
  from Cons.prems obtain r where r: "get_rssi_once D W dr = Some r"
    by (auto simp: then_do_def split: option.splits)
  note b = get_rssi_once_sent[OF r]
  show ?case
  proof (cases r)
    case (Raise e dr')
    with Cons.prems r b show ?thesis by auto
  next
    case (Return v dr')
    show ?thesis
    proof (cases "v = 25")
      case True
      with Cons.prems r Return have "get_rssi_attempts D W is dr' = Some out" by simp
      from Cons.IH[OF this] b Return show ?thesis by simp
    next
      case False
      with Cons.prems r Return b show ?thesis by auto
    qed
  qed
qed

lemma three: "[0 ..< 3] = [0, 1, 2]"
  by (simp add: upt_rec)

lemma get_rssi_unfold:
  "get_rssi D W dr =
     then_do (get_rssi_once D W dr) (\<lambda>v1 dr1.
       if v1 \<noteq> 25 then Some (Return v1 dr1)
       else then_do (get_rssi_once D W dr1) (\<lambda>v2 dr2.
         if v2 \<noteq> 25 then Some (Return v2 dr2)
         else then_do (get_rssi_once D W dr2) (\<lambda>v3 dr3.
           if v3 \<noteq> 25 then Some (Return v3 dr3)
           else Some (Raise (BGAPIError ''get rssi failed'') dr3))))"
  by (simp add: get_rssi_def three cong: if_cong)

lemma get_rssi_fails_iff:
  "get_rssi D W dr = Some (Raise (BGAPIError msg) dr') \<longleftrightarrow>
     msg = ''get rssi failed'' \<and>
     (\<exists>dr1 dr2. get_rssi_once D W dr = Some (Return 25 dr1) \<and>
        get_rssi_once D W dr1 = Some (Return 25 dr2) \<and>
        get_rssi_once D W dr2 = Some (Return 25 dr'))"
  unfolding get_rssi_unfold
  by (auto simp: then_do_def split: option.splits outcome.splits if_splits
      dest: get_rssi_once_raises)


lemma get_rssi_once_value:
  assumes "connected (obj dr)"
    and "\<forall>p \<in> set (popped W (gets dr) n).
           fst (decode_packet D p) \<notin>
             set [ble_rsp_connection_get_rssi, ble_evt_connection_disconnected]"
    and "recvr_queue_get W (gets dr + n) = Some m"
    and "fst (decode_packet D m) \<in>
           set [ble_rsp_connection_get_rssi, ble_evt_connection_disconnected]"
    and "apply_handlers D (popped W (gets dr) n @ [m]) (obj dr) = Inr self'"
    and "connected self'"
  shows "get_rssi_once D W dr =
     Some (Return (response_return self')
       (dr\<lparr>obj := self', gets := gets dr + n + 1,
            sent := sent dr @ [ble_cmd_connection_get_rssi (connection_handle (obj dr))]\<rparr>))"
proof -
  let ?dr0 = "send_command (ble_cmd_connection_get_rssi (connection_handle (obj dr))) dr"
  let ?none = "None :: 'b option"
  let ?dr1 = "?dr0\<lparr>obj := self', gets := gets ?dr0 + n + 1,
       clock_reads := (case ?none of None \<Rightarrow> clock_reads ?dr0 | Some t \<Rightarrow> clock_reads ?dr0 + n + 2)\<rparr>"
  have w1: "process_packets_until D W
       [ble_rsp_connection_get_rssi, ble_evt_connection_disconnected] None BGAPIError ?dr0 =
      Some (Return () ?dr1)"
    by (rule process_packets_until_match) (use assms(2-5) in \<open>simp_all add: send_command_def\<close>)
  have c0: "check_connection True dr = Some (Return () dr)"
    using assms(1) by (simp add: check_connection_def)
  have c1: "check_connection True ?dr1 = Some (Return () ?dr1)"
    using assms(6) by (simp add: check_connection_def)
  show ?thesis
    unfolding get_rssi_once_def Let_def
    by (simp only: c0 then_do_Return w1 c1) (simp add: send_command_def)
qed

text \<open>
  C4. \<open>get_rssi\<close> makes at most three attempts: whatever its outcome, at most three
  get-RSSI commands have been sent. If the first attempt that gives a value other than 25
  is the first, the second or the third, that value is returned with the driver as this
  attempt left it, so no further attempt is made. And \<open>get_rssi\<close> raises \<open>BGAPIError\<close>
  if and only if three attempts were made and each gave 25. (An attempt that finds the
  connection down raises \<open>NotConnectedError\<close>, which is not this failure.)
\<close>

theorem get_rssi_three_attempts:
  "(\<forall>out. get_rssi D W dr = Some out \<longrightarrow>
      rssi_commands (driver_of out) \<le> rssi_commands dr + 3) \<and>
   (\<forall>v1 dr1. get_rssi_once D W dr = Some (Return v1 dr1) \<longrightarrow>
      (v1 \<noteq> 25 \<longrightarrow> get_rssi D W dr = Some (Return v1 dr1)) \<and>
      (v1 = 25 \<longrightarrow>
        (\<forall>v2 dr2. get_rssi_once D W dr1 = Some (Return v2 dr2) \<longrightarrow>
          (v2 \<noteq> 25 \<longrightarrow> get_rssi D W dr = Some (Return v2 dr2)) \<and>
          (v2 = 25 \<longrightarrow>
            (\<forall>v3 dr3. get_rssi_once D W dr2 = Some (Return v3 dr3) \<longrightarrow>
              (v3 \<noteq> 25 \<longrightarrow> get_rssi D W dr = Some (Return v3 dr3)) \<and>
              (v3 = 25 \<longrightarrow>
                get_rssi D W dr = Some (Raise (BGAPIError ''get rssi failed'') dr3))))))) \<and>
   (\<forall>msg dr'. get_rssi D W dr = Some (Raise (BGAPIError msg) dr') \<longleftrightarrow>
      msg = ''get rssi failed'' \<and>
      (\<exists>dr1 dr2. get_rssi_once D W dr = Some (Return 25 dr1) \<and>
         get_rssi_once D W dr1 = Some (Return 25 dr2) \<and>
         get_rssi_once D W dr2 = Some (Return 25 dr')))"
proof -
  have A: "\<forall>out. get_rssi D W dr = Some out \<longrightarrow>
      rssi_commands (driver_of out) \<le> rssi_commands dr + 3"
    using get_rssi_attempts_sent[of D W "[0 ..< 3]" dr] by (simp add: get_rssi_def)
  have B: "\<forall>v1 dr1. get_rssi_once D W dr = Some (Return v1 dr1) \<longrightarrow>
      (v1 \<noteq> 25 \<longrightarrow> get_rssi D W dr = Some (Return v1 dr1)) \<and>
      (v1 = 25 \<longrightarrow>
        (\<forall>v2 dr2. get_rssi_once D W dr1 = Some (Return v2 dr2) \<longrightarrow>
          (v2 \<noteq> 25 \<longrightarrow> get_rssi D W dr = Some (Return v2 dr2)) \<and>
          (v2 = 25 \<longrightarrow>
            (\<forall>v3 dr3. get_rssi_once D W dr2 = Some (Return v3 dr3) \<longrightarrow>
              (v3 \<noteq> 25 \<longrightarrow> get_rssi D W dr = Some (Return v3 dr3)) \<and>
              (v3 = 25 \<longrightarrow>
                get_rssi D W dr = Some (Raise (BGAPIError ''get rssi failed'') dr3))))))"
    by (simp add: get_rssi_unfold)
  have C: "\<forall>msg dr'. get_rssi D W dr = Some (Raise (BGAPIError msg) dr') \<longleftrightarrow>
      msg = ''get rssi failed'' \<and>
      (\<exists>dr1 dr2. get_rssi_once D W dr = Some (Return 25 dr1) \<and>
         get_rssi_once D W dr1 = Some (Return 25 dr2) \<and>
         get_rssi_once D W dr2 = Some (Return 25 dr'))"
    using get_rssi_fails_iff by blast
  from A B C show ?thesis by (intro conjI)
qed

theorem get_rssi_three_attempts_witness:
  "get_rssi example_deps rssi_world connected_driver =
     Some (Raise (BGAPIError ''get rssi failed'')
       (connected_driver\<lparr>obj := BGAPIBackend_init\<lparr>connected := True, response_return := 25\<rparr>,
          gets := 3,
          sent := [ble_cmd_connection_get_rssi 0, ble_cmd_connection_get_rssi 0,
                   ble_cmd_connection_get_rssi 0]\<rparr>))"
proof -
  let ?s = "BGAPIBackend_init\<lparr>connected := True, response_return := 25\<rparr>"
  let ?c = "ble_cmd_connection_get_rssi 0"
  let ?dr1 = "connected_driver\<lparr>obj := ?s, gets := 1, sent := [?c]\<rparr>"
  let ?dr2 = "connected_driver\<lparr>obj := ?s, gets := 2, sent := [?c, ?c]\<rparr>"
  let ?dr3 = "connected_driver\<lparr>obj := ?s, gets := 3, sent := [?c, ?c, ?c]\<rparr>"
  let ?m = "(ble_rsp_connection_get_rssi, no_args\<lparr>arg_rssi := 25\<rparr>)"
  have a1: "get_rssi_once example_deps rssi_world connected_driver = Some (Return 25 ?dr1)"
    using get_rssi_once_value[of connected_driver rssi_world 0 example_deps ?m ?s]
    by (simp add: rssi_world_def connected_driver_def scripted_def popped_def new_driver_def
        example_deps_def BGAPIBackend_init_def no_args_def handler_defs)
  have a2: "get_rssi_once example_deps rssi_world ?dr1 = Some (Return 25 ?dr2)"
    using get_rssi_once_value[of ?dr1 rssi_world 0 example_deps ?m ?s]
    by (simp add: rssi_world_def connected_driver_def scripted_def popped_def new_driver_def
        example_deps_def BGAPIBackend_init_def no_args_def handler_defs)
  have a3: "get_rssi_once example_deps rssi_world ?dr2 = Some (Return 25 ?dr3)"
    using get_rssi_once_value[of ?dr2 rssi_world 0 example_deps ?m ?s]
    by (simp add: rssi_world_def connected_driver_def scripted_def popped_def new_driver_def
        example_deps_def BGAPIBackend_init_def no_args_def handler_defs)
  from get_rssi_three_attempts[of example_deps rssi_world connected_driver] a1 a2 a3
  show ?thesis by blast
qed

subsection \<open>Bonding\<close>

lemma bond_wait_outcome:
  "bond_wait D W dr = Some r \<Longrightarrow> (case r of Raise e dr' \<Rightarrow> True | Return u dr' \<Rightarrow> bond_exit dr')"
proof (induction rule: bond_wait.raw_induct[rotated 1, consumes 1, case_names step])
  case (step loop D W dr r)
  show ?case
  proof (cases "bond_exit dr")
    case True
    with step(2) show ?thesis
      by (auto simp: bond_exit_def split: if_splits)
  next
    case False
    with step(2) consider e d where "r = Raise e d" | dr1 where "loop D W dr1 = Some r"
      by (auto simp: bond_exit_def split: if_splits option.splits outcome.splits)
    then show ?thesis
    proof cases
      case 1
      then show ?thesis by simp
    next
      case 2
      then show ?thesis by (rule step(1))
    qed
  qed
qed

lemma bond_wait_exit:
  "bond_wait D W dr = Some (Return u dr') \<Longrightarrow> bond_exit dr'"
  using bond_wait_outcome[of D W dr "Return u dr'"] by simp

lemma bond_wait_done:
  "bond_exit dr \<Longrightarrow> bond_wait D W dr = Some (Return () dr)"
  by (subst bond_wait.simps) (auto simp: bond_exit_def)

lemma bond_wait_again:
  "\<not> bond_exit dr \<Longrightarrow>
   bond_wait D W dr =
     then_do (process_packets_until D W
                [ble_evt_connection_status, ble_evt_sm_bonding_fail,
                 ble_evt_connection_disconnected] None BGAPIError dr)
       (\<lambda>u dr. bond_wait D W dr)"
  by (subst bond_wait.simps)
     (auto simp: bond_exit_def then_do_def split: option.splits outcome.splits)

lemma bond_stages:
  assumes "connected (obj dr)"
    and "process_packets_until D W
           [ble_rsp_sm_set_bondable_mode, ble_evt_connection_disconnected] None BGAPIError
           (send_command (ble_cmd_sm_set_bondable_mode (Bondable_yes D))
              (dr\<lparr>obj := (obj dr)\<lparr>bond_expected := True\<rparr>\<rparr>)) = Some (Return () dr1)"
    and "connected (obj dr1)"
    and "process_packets_until D W
           [ble_rsp_sm_encrypt_start, ble_evt_connection_disconnected] None BGAPIError
           (send_command (ble_cmd_sm_encrypt_start (connection_handle (obj dr1))
                            (Bonding_create_bonding D))
              (dr1\<lparr>obj := (obj dr1)\<lparr>bonding_fail := False\<rparr>\<rparr>)) = Some (Return () dr2)"
    and "connected (obj dr2)"
    and "response_return (obj dr2) = 0"
    and "bond_wait D W dr2 = Some (Return () dr3)"
  shows "bond D W dr =
     (if \<not> connected (obj dr3) then Some (Raise (NotConnectedError ''Not connected'') dr3)
      else if bonding_fail (obj dr3)
      then Some (Raise (BGAPIError ''encrypt_start failed: '') dr3)
      else Some (Return () dr3))"
proof -
  have c0: "check_connection True dr = Some (Return () dr)"
    using assms(1) by (simp add: check_connection_def)
  have c1: "check_connection True dr1 = Some (Return () dr1)"
    using assms(3) by (simp add: check_connection_def)
  have c2: "check_connection True dr2 = Some (Return () dr2)"
    using assms(5) by (simp add: check_connection_def)
  show ?thesis
    unfolding bond_def Let_def
    by (simp add: c0 assms(2) c1 assms(4) c2 assms(6,7) check_connection_def[of True dr3])
qed

lemmas run_defs =
  scripted_def popped_def new_driver_def connected_driver_def example_deps_def
  BGAPIBackend_init_def no_args_def handler_defs send_command_def connection_status_flag_def

lemma wait_first:
  assumes "recvr_queue_get W (gets dr) = Some m"
    and "fst (decode_packet D m) \<in> set expected"
    and "packet_handlers D (fst (decode_packet D m)) (snd (decode_packet D m)) (obj dr) = Inr self'"
  shows "process_packets_until D W expected None exception_type dr =
     Some (Return () (dr\<lparr>obj := self', gets := Suc (gets dr)\<rparr>))"
  using process_packets_until_match[of W dr 0 D expected m self' None exception_type] assms
  by (simp add: popped_def)

text \<open>
  C7, as the code has it. Let \<open>bond\<close> have come past the response to encrypt-start: the
  two commands were answered, the connection is up and the result is 0. The loop then
  waits for a connection status, bonding-fail or disconnected event again and again, and
  exits exactly when, at its test, \<open>bonding_fail\<close> is set, the connection is down, \<open>bonded\<close>
  is set or \<open>encrypted\<close> is set: one of the four holds in the state it exits with, it exits
  at once from a state where one holds, and from any other state it waits once more.
  When it exits with \<open>bonding_fail\<close> set and the connection up, \<open>bond\<close> raises \<open>BGAPIError\<close>.
\<close>

theorem bond_wait_exits:
  assumes "connected (obj dr)"
    and "process_packets_until D W
           [ble_rsp_sm_set_bondable_mode, ble_evt_connection_disconnected] None BGAPIError
           (send_command (ble_cmd_sm_set_bondable_mode (Bondable_yes D))
              (dr\<lparr>obj := (obj dr)\<lparr>bond_expected := True\<rparr>\<rparr>)) = Some (Return () dr1)"
    and "connected (obj dr1)"
    and "process_packets_until D W
           [ble_rsp_sm_encrypt_start, ble_evt_connection_disconnected] None BGAPIError
           (send_command (ble_cmd_sm_encrypt_start (connection_handle (obj dr1))
                            (Bonding_create_bonding D))
              (dr1\<lparr>obj := (obj dr1)\<lparr>bonding_fail := False\<rparr>\<rparr>)) = Some (Return () dr2)"
    and "connected (obj dr2)"
    and "response_return (obj dr2) = 0"
  shows "(\<forall>dr3. bond_wait D W dr2 = Some (Return () dr3) \<longrightarrow>
            (bonding_fail (obj dr3) \<or> \<not> connected (obj dr3) \<or> bonded (obj dr3) \<or>
             encrypted (obj dr3)) \<and>
            (bonding_fail (obj dr3) \<and> connected (obj dr3) \<longrightarrow>
               bond D W dr = Some (Raise (BGAPIError ''encrypt_start failed: '') dr3))) \<and>
         (\<forall>d. (bonding_fail (obj d) \<or> \<not> connected (obj d) \<or> bonded (obj d) \<or>
               encrypted (obj d) \<longrightarrow> bond_wait D W d = Some (Return () d)) \<and>
              (\<not> (bonding_fail (obj d) \<or> \<not> connected (obj d) \<or> bonded (obj d) \<or>
                  encrypted (obj d)) \<longrightarrow>
               bond_wait D W d =
                 then_do (process_packets_until D W
                            [ble_evt_connection_status, ble_evt_sm_bonding_fail,
                             ble_evt_connection_disconnected] None BGAPIError d)
                   (\<lambda>u d'. bond_wait D W d')))"
proof -
  have A: "(bonding_fail (obj dr3) \<or> \<not> connected (obj dr3) \<or> bonded (obj dr3) \<or>
             encrypted (obj dr3)) \<and>
            (bonding_fail (obj dr3) \<and> connected (obj dr3) \<longrightarrow>
               bond D W dr = Some (Raise (BGAPIError ''encrypt_start failed: '') dr3))"
    if w: "bond_wait D W dr2 = Some (Return () dr3)" for dr3
    using bond_wait_exit[OF w] bond_stages[OF assms w]
    by (simp add: bond_exit_def)
  have B: "(bonding_fail (obj d) \<or> \<not> connected (obj d) \<or> bonded (obj d) \<or>
               encrypted (obj d) \<longrightarrow> bond_wait D W d = Some (Return () d)) \<and>
              (\<not> (bonding_fail (obj d) \<or> \<not> connected (obj d) \<or> bonded (obj d) \<or>
                  encrypted (obj d)) \<longrightarrow>
               bond_wait D W d =
                 then_do (process_packets_until D W
                            [ble_evt_connection_status, ble_evt_sm_bonding_fail,
                             ble_evt_connection_disconnected] None BGAPIError d)
                   (\<lambda>u d'. bond_wait D W d'))" for d
    using bond_wait_done[of d D W] bond_wait_again[of d D W]
    by (simp add: bond_exit_def)
  from A B show ?thesis by blast
qed

theorem bond_wait_exits_witness:
  "bond example_deps bond_fail_world connected_driver =
     Some (Raise (BGAPIError ''encrypt_start failed: '')
       (connected_driver\<lparr>obj := BGAPIBackend_init\<lparr>connected := True, bond_expected := True,
            bonding_fail := True, event_return := 773\<rparr>,
          gets := 3,
          sent := [ble_cmd_sm_set_bondable_mode 1, ble_cmd_sm_encrypt_start 0 1]\<rparr>))"
proof -
  let ?D = example_deps and ?W = bond_fail_world and ?dr = connected_driver
  let ?s = "BGAPIBackend_init\<lparr>connected := True, bond_expected := True\<rparr>"
  let ?c1 = "ble_cmd_sm_set_bondable_mode 1" and ?c2 = "ble_cmd_sm_encrypt_start 0 1"
  let ?dr1 = "?dr\<lparr>obj := ?s, gets := 1, sent := [?c1]\<rparr>"
  let ?dr2 = "?dr\<lparr>obj := ?s, gets := 2, sent := [?c1, ?c2]\<rparr>"
  let ?dr3 = "?dr\<lparr>obj := ?s\<lparr>bonding_fail := True, event_return := 773\<rparr>, gets := 3,
                sent := [?c1, ?c2]\<rparr>"
  have h0: "connected (obj ?dr)"
    by (simp add: run_defs)
  have h1: "process_packets_until ?D ?W
           [ble_rsp_sm_set_bondable_mode, ble_evt_connection_disconnected] None BGAPIError
           (send_command (ble_cmd_sm_set_bondable_mode (Bondable_yes ?D))
              (?dr\<lparr>obj := (obj ?dr)\<lparr>bond_expected := True\<rparr>\<rparr>)) = Some (Return () ?dr1)"
    by (subst wait_first[where m = "(ble_rsp_sm_set_bondable_mode, no_args)" and self' = ?s])
       (simp_all add: bond_fail_world_def run_defs)
  have h2: "connected (obj ?dr1)"
    by (simp add: run_defs)
  have h3: "process_packets_until ?D ?W
           [ble_rsp_sm_encrypt_start, ble_evt_connection_disconnected] None BGAPIError
           (send_command (ble_cmd_sm_encrypt_start (connection_handle (obj ?dr1))
                            (Bonding_create_bonding ?D))
              (?dr1\<lparr>obj := (obj ?dr1)\<lparr>bonding_fail := False\<rparr>\<rparr>)) = Some (Return () ?dr2)"
    by (subst wait_first[where m = "(ble_rsp_sm_encrypt_start, no_args)" and self' = ?s])
       (simp_all add: bond_fail_world_def run_defs)
  have h4: "connected (obj ?dr2)" and h5: "response_return (obj ?dr2) = 0"
    by (simp_all add: run_defs)
  have w: "process_packets_until ?D ?W
             [ble_evt_connection_status, ble_evt_sm_bonding_fail,
              ble_evt_connection_disconnected] None BGAPIError ?dr2 = Some (Return () ?dr3)"
    by (subst wait_first[where m = "(ble_evt_sm_bonding_fail, no_args\<lparr>arg_result := 773\<rparr>)"
          and self' = "?s\<lparr>bonding_fail := True, event_return := 773\<rparr>"])
       (simp_all add: bond_fail_world_def run_defs)
  have "\<not> bond_exit ?dr2" and "bond_exit ?dr3"
    by (simp_all add: bond_exit_def run_defs)
  then have h6: "bond_wait ?D ?W ?dr2 = Some (Return () ?dr3)"
    by (simp add: bond_wait_again w bond_wait_done)
  have "bonding_fail (obj ?dr3) \<and> connected (obj ?dr3)"
    by (simp add: run_defs)
  with bond_wait_exits[OF h0 h1 h2 h3 h4 h5] h6 show ?thesis
    by blast
qed

text \<open>
  The loop does not exit only when bonded, failed or disconnected: a connection status
  event with the flag encrypted ends it, and \<open>bond\<close> returns with \<open>bonded\<close> false,
  \<open>bonding_fail\<close> false and the connection up.
\<close>

theorem bond_wait_exits_counterexample:
  "bond example_deps bond_encrypted_world connected_driver =
     Some (Return ()
       (connected_driver\<lparr>obj := BGAPIBackend_init\<lparr>connected := True, bond_expected := True,
            encrypted := True\<rparr>,
          gets := 3,
          sent := [ble_cmd_sm_set_bondable_mode 1, ble_cmd_sm_encrypt_start 0 1]\<rparr>)) \<and>
   bond_wait example_deps bond_encrypted_world
     (connected_driver\<lparr>obj := BGAPIBackend_init\<lparr>connected := True, bond_expected := True\<rparr>,
        gets := 2,
        sent := [ble_cmd_sm_set_bondable_mode 1, ble_cmd_sm_encrypt_start 0 1]\<rparr>) =
     Some (Return ()
       (connected_driver\<lparr>obj := BGAPIBackend_init\<lparr>connected := True, bond_expected := True,
            encrypted := True\<rparr>,
          gets := 3,
          sent := [ble_cmd_sm_set_bondable_mode 1, ble_cmd_sm_encrypt_start 0 1]\<rparr>)) \<and>
   \<not> bonded (BGAPIBackend_init\<lparr>connected := True, bond_expected := True, encrypted := True\<rparr>) \<and>
   \<not> bonding_fail
       (BGAPIBackend_init\<lparr>connected := True, bond_expected := True, encrypted := True\<rparr>) \<and>
   connected (BGAPIBackend_init\<lparr>connected := True, bond_expected := True, encrypted := True\<rparr>)"
proof -
  let ?D = example_deps and ?W = bond_encrypted_world and ?dr = connected_driver
  let ?s = "BGAPIBackend_init\<lparr>connected := True, bond_expected := True\<rparr>"
  let ?c1 = "ble_cmd_sm_set_bondable_mode 1" and ?c2 = "ble_cmd_sm_encrypt_start 0 1"
  let ?dr1 = "?dr\<lparr>obj := ?s, gets := 1, sent := [?c1]\<rparr>"
  let ?dr2 = "?dr\<lparr>obj := ?s, gets := 2, sent := [?c1, ?c2]\<rparr>"
  let ?dr3 = "?dr\<lparr>obj := ?s\<lparr>encrypted := True\<rparr>, gets := 3, sent := [?c1, ?c2]\<rparr>"
  have h0: "connected (obj ?dr)"
    by (simp add: run_defs)
  have h1: "process_packets_until ?D ?W
           [ble_rsp_sm_set_bondable_mode, ble_evt_connection_disconnected] None BGAPIError
           (send_command (ble_cmd_sm_set_bondable_mode (Bondable_yes ?D))
              (?dr\<lparr>obj := (obj ?dr)\<lparr>bond_expected := True\<rparr>\<rparr>)) = Some (Return () ?dr1)"
    by (subst wait_first[where m = "(ble_rsp_sm_set_bondable_mode, no_args)" and self' = ?s])
       (simp_all add: bond_encrypted_world_def run_defs)
  have h2: "connected (obj ?dr1)"
    by (simp add: run_defs)
  have h3: "process_packets_until ?D ?W
           [ble_rsp_sm_encrypt_start, ble_evt_connection_disconnected] None BGAPIError
           (send_command (ble_cmd_sm_encrypt_start (connection_handle (obj ?dr1))
                            (Bonding_create_bonding ?D))
              (?dr1\<lparr>obj := (obj ?dr1)\<lparr>bonding_fail := False\<rparr>\<rparr>)) = Some (Return () ?dr2)"
    by (subst wait_first[where m = "(ble_rsp_sm_encrypt_start, no_args)" and self' = ?s])
       (simp_all add: bond_encrypted_world_def run_defs)
  have h4: "connected (obj ?dr2)" and h5: "response_return (obj ?dr2) = 0"
    by (simp_all add: run_defs)
  have w: "process_packets_until ?D ?W
             [ble_evt_connection_status, ble_evt_sm_bonding_fail,
              ble_evt_connection_disconnected] None BGAPIError ?dr2 = Some (Return () ?dr3)"
    by (subst wait_first[where m = "(ble_evt_connection_status, no_args\<lparr>arg_flags := 3\<rparr>)"
          and self' = "?s\<lparr>encrypted := True\<rparr>"])
       (simp_all add: bond_encrypted_world_def run_defs)
  have "\<not> bond_exit ?dr2" and "bond_exit ?dr3"
    by (simp_all add: bond_exit_def run_defs)
  then have h6: "bond_wait ?D ?W ?dr2 = Some (Return () ?dr3)"
    by (simp add: bond_wait_again w bond_wait_done)
  have "bond ?D ?W ?dr = Some (Return () ?dr3)"
    using bond_stages[OF h0 h1 h2 h3 h4 h5 h6] by (simp add: run_defs)
  with h6 show ?thesis
    by (simp add: run_defs)
qed

subsection \<open>Subscribing\<close>








subsection \<open>The disconnected event\<close>

lemma since_disconnected_snoc:
  "since_disconnected (ps @ [p]) =
     (if fst p = ble_evt_connection_disconnected then [] else since_disconnected ps @ [p])"
  by (simp add: since_disconnected_def)

lemma handlers_bonded:
  assumes "packet_handlers D pt args self = Inr self'" and "bonded self'"
  shows "bonded self \<or> (bond_expected self \<and> pt = ble_evt_sm_bond_status)"
proof (cases "bond_expected self")
  case False
  with handlers_flags(3)[OF assms(1)] assms(2) show ?thesis by blast
next
  case True
  show ?thesis
  proof (cases "pt = ble_evt_sm_bond_status")
    case True
    with \<open>bond_expected self\<close> show ?thesis by simp
  next
    case False
    with assms have "bonded self"
      by (cases pt; auto simp: handler_defs Let_def
          split: option.splits sum.splits if_splits prod.splits)
    then show ?thesis ..
  qed
qed

lemma handle_all_bond_expected_back:
  "bond_expected (handle_all D ps self) \<Longrightarrow> bond_expected self"
  using handle_all_bond_expected[of self D ps] by blast

lemma after_disconnected:
  assumes "last_lifecycle ps = Some ble_evt_connection_disconnected"
  shows "\<not> encrypted (handle_all D ps self) \<and>
     (bonded (handle_all D ps self) \<longrightarrow>
        bond_expected self \<and> ble_evt_sm_bond_status \<in> fst ` set (since_disconnected ps))"
  using assms
proof (induction ps rule: rev_induct)
  case Nil
  then show ?case by (simp add: last_lifecycle_def)
next
  case (snoc p ps)
  let ?s = "handle_all D ps self"
  show ?case
  proof (cases "lifecycle (fst p)")
    case True
    with snoc.prems have "fst p = ble_evt_connection_disconnected"
      by (simp add: last_lifecycle_snoc)
    then show ?thesis
      by (simp add: handle_all_snoc ble_evt_connection_disconnected_handler_def)
  next
    case False
    with snoc.prems have l: "last_lifecycle ps = Some ble_evt_connection_disconnected"
      by (simp add: last_lifecycle_snoc)
    from snoc.IH[OF l] have ne: "\<not> encrypted ?s"
      and bo: "bonded ?s \<Longrightarrow>
        bond_expected self \<and> ble_evt_sm_bond_status \<in> fst ` set (since_disconnected ps)"
      by simp_all
    from False have ns: "fst p \<noteq> ble_evt_connection_status"
      and nd: "fst p \<noteq> ble_evt_connection_disconnected"
      by (simp_all add: lifecycle_def)
    show ?thesis
    proof (cases "packet_handlers D (fst p) (snd p) ?s")
      case (Inl e)
      with ne bo nd show ?thesis
        by (auto simp: handle_all_snoc since_disconnected_snoc)
    next
      case (Inr s')
      have e': "\<not> encrypted s'"
        using handlers_flags(2)[OF Inr ns] ne by blast
      have b': "bond_expected self \<and>
          ble_evt_sm_bond_status \<in> fst ` set (since_disconnected (ps @ [p]))"
        if "bonded s'"
      proof -
        from handlers_bonded[OF Inr that]
        consider "bonded ?s" | "bond_expected ?s" "fst p = ble_evt_sm_bond_status"
          by blast
        then show ?thesis
        proof cases
          case 1
          from bo[OF 1] nd show ?thesis
            by (auto simp: since_disconnected_snoc)
        next
          case 2
          from handle_all_bond_expected_back[OF 2(1)] 2(2) nd show ?thesis
            by (auto simp: since_disconnected_snoc)
        qed
      qed
      from Inr e' b' show ?thesis
        by (simp add: handle_all_snoc)
    qed
  qed
qed

text \<open>
  C8, as the code has it. The handler of the disconnected event never raises and leaves
  \<open>connected\<close>, \<open>encrypted\<close> and \<open>bonded\<close> false and the reason of the event in
  \<open>_event_return\<close>. In every state that the handler bank reaches, from any state and by
  any sequence of packets (a handler that raises leaving the state as it was),
  \<open>encrypted\<close> being true implies that the most recent connection-lifecycle event was not
  a disconnection. For \<open>bonded\<close> this holds with one exception: \<open>bonded\<close> is true after a
  disconnection only if a bond was expected when the run began, as \<open>bond\<close> sets it, and a
  bond status event was handled after that disconnection.
\<close>

theorem disconnected_clears_flags:
  "(\<exists>self'. ble_evt_connection_disconnected_handler args self = Inr self' \<and>
       \<not> connected self' \<and> \<not> encrypted self' \<and> \<not> bonded self' \<and>
       event_return self' = arg_reason args) \<and>
   (encrypted (handle_all D ps self0) \<longrightarrow>
      last_lifecycle ps \<noteq> Some ble_evt_connection_disconnected) \<and>
   (bonded (handle_all D ps self0) \<and>
    last_lifecycle ps = Some ble_evt_connection_disconnected \<longrightarrow>
      bond_expected self0 \<and> ble_evt_sm_bond_status \<in> fst ` set (since_disconnected ps))"
  using after_disconnected[of ps D self0]
  by (auto simp: ble_evt_connection_disconnected_handler_def)

theorem disconnected_clears_flags_witness:
  "encrypted (handle_all example_deps
     [(ble_evt_connection_status, no_args\<lparr>arg_flags := 3\<rparr>),
      (ble_evt_connection_disconnected, no_args\<lparr>arg_reason := 520\<rparr>),
      (ble_evt_connection_status, no_args\<lparr>arg_flags := 3\<rparr>)] BGAPIBackend_init) \<and>
   last_lifecycle
     [(ble_evt_connection_status, no_args\<lparr>arg_flags := 3\<rparr>),
      (ble_evt_connection_disconnected, no_args\<lparr>arg_reason := 520\<rparr>),
      (ble_evt_connection_status, no_args\<lparr>arg_flags := 3\<rparr>)]
     \<noteq> Some ble_evt_connection_disconnected \<and>
   \<not> encrypted (handle_all example_deps
     [(ble_evt_connection_status, no_args\<lparr>arg_flags := 3\<rparr>),
      (ble_evt_connection_disconnected, no_args\<lparr>arg_reason := 520\<rparr>)] BGAPIBackend_init) \<and>
   bonded (handle_all example_deps
     [(ble_evt_connection_disconnected, no_args\<lparr>arg_reason := 520\<rparr>),
      (ble_evt_sm_bond_status, no_args)] (BGAPIBackend_init\<lparr>bond_expected := True\<rparr>)) \<and>
   last_lifecycle
     [(ble_evt_connection_disconnected, no_args\<lparr>arg_reason := 520\<rparr>),
      (ble_evt_sm_bond_status, no_args)] = Some ble_evt_connection_disconnected \<and>
   bond_expected (BGAPIBackend_init\<lparr>bond_expected := True\<rparr>) \<and>
   ble_evt_sm_bond_status \<in> fst ` set (since_disconnected
     [(ble_evt_connection_disconnected, no_args\<lparr>arg_reason := 520\<rparr>),
      (ble_evt_sm_bond_status, no_args)])"
  using disconnected_clears_flags[of no_args BGAPIBackend_init example_deps
      "[(ble_evt_connection_status, no_args\<lparr>arg_flags := 3\<rparr>),
        (ble_evt_connection_disconnected, no_args\<lparr>arg_reason := 520\<rparr>),
        (ble_evt_connection_status, no_args\<lparr>arg_flags := 3\<rparr>)]" BGAPIBackend_init]
    disconnected_clears_flags[of no_args BGAPIBackend_init example_deps
      "[(ble_evt_connection_disconnected, no_args\<lparr>arg_reason := 520\<rparr>),
        (ble_evt_sm_bond_status, no_args)]" "BGAPIBackend_init\<lparr>bond_expected := True\<rparr>"]
  by (simp add: BGAPIBackend_init_def example_deps_def no_args_def handler_defs
      connection_status_flag_def last_lifecycle_def lifecycle_def since_disconnected_def)

text \<open>
  The exception occurs: \<open>connect\<close> succeeds, \<open>bond\<close> expects a bond and is cut short by the
  disconnected event, and the bond status event that the next wait pops sets \<open>bonded\<close>,
  with the disconnection still the most recent connection-lifecycle event.
\<close>

theorem disconnected_clears_flags_counterexample:
  "connect example_deps lost_link_world [1, 2, 3, 4, 5, 6] 5 0 new_driver =
     Some (Return ()
       (new_driver\<lparr>obj := BGAPIBackend_init\<lparr>connected := True\<rparr>, gets := 2, clock_reads := 2,
          sent := [ble_cmd_gap_connect_direct [1, 2, 3, 4, 5, 6] 0 6 30 20 0]\<rparr>)) \<and>
   bond example_deps lost_link_world
       (new_driver\<lparr>obj := BGAPIBackend_init\<lparr>connected := True\<rparr>, gets := 2, clock_reads := 2,
          sent := [ble_cmd_gap_connect_direct [1, 2, 3, 4, 5, 6] 0 6 30 20 0]\<rparr>) =
     Some (Raise (NotConnectedError ''Not connected'')
       (new_driver\<lparr>obj := BGAPIBackend_init\<lparr>bond_expected := True, event_return := 520\<rparr>,
          gets := 3, clock_reads := 2,
          sent := [ble_cmd_gap_connect_direct [1, 2, 3, 4, 5, 6] 0 6 30 20 0,
                   ble_cmd_sm_set_bondable_mode 1]\<rparr>)) \<and>
   disconnect example_deps lost_link_world True
       (new_driver\<lparr>obj := BGAPIBackend_init\<lparr>bond_expected := True, event_return := 520\<rparr>,
          gets := 3, clock_reads := 2,
          sent := [ble_cmd_gap_connect_direct [1, 2, 3, 4, 5, 6] 0 6 30 20 0,
                   ble_cmd_sm_set_bondable_mode 1]\<rparr>) =
     Some (Return ()
       (new_driver\<lparr>obj := BGAPIBackend_init\<lparr>bonded := True, event_return := 520,
            response_return := 390\<rparr>,
          gets := 5, clock_reads := 2,
          sent := [ble_cmd_gap_connect_direct [1, 2, 3, 4, 5, 6] 0 6 30 20 0,
                   ble_cmd_sm_set_bondable_mode 1, ble_cmd_connection_disconnect 0]\<rparr>)) \<and>
   bonded (BGAPIBackend_init\<lparr>bonded := True, event_return := 520, response_return := 390\<rparr>) \<and>
   last_lifecycle
     [(ble_rsp_gap_connect_direct, no_args),
      (ble_evt_connection_status, no_args\<lparr>arg_flags := 1\<rparr>),
      (ble_evt_connection_disconnected, no_args\<lparr>arg_reason := 520\<rparr>),
      (ble_evt_sm_bond_status, no_args),
      (ble_rsp_connection_disconnect, no_args\<lparr>arg_result := 390\<rparr>)] =
     Some ble_evt_connection_disconnected"
proof -
  let ?D = example_deps and ?W = lost_link_world
  let ?c1 = "ble_cmd_gap_connect_direct [1, 2, 3, 4, 5, 6] 0 6 30 20 0"
  let ?c2 = "ble_cmd_sm_set_bondable_mode 1"
  let ?c3 = "ble_cmd_connection_disconnect 0"
  let ?s1 = "BGAPIBackend_init\<lparr>connected := True\<rparr>"
  let ?s2 = "BGAPIBackend_init\<lparr>bond_expected := True, event_return := 520\<rparr>"
  let ?s3 = "BGAPIBackend_init\<lparr>bonded := True, event_return := 520, response_return := 390\<rparr>"
  let ?d0 = "new_driver\<lparr>gets := 1, sent := [?c1]\<rparr>"
  let ?d1 = "new_driver\<lparr>obj := ?s1, gets := 2, clock_reads := 2, sent := [?c1]\<rparr>"
  let ?d2 = "new_driver\<lparr>obj := ?s2, gets := 3, clock_reads := 2, sent := [?c1, ?c2]\<rparr>"
  let ?d3 = "new_driver\<lparr>obj := ?s3, gets := 5, clock_reads := 2, sent := [?c1, ?c2, ?c3]\<rparr>"
  have a1: "process_packets_until ?D ?W [ble_rsp_gap_connect_direct] None BGAPIError
      (send_command ?c1 new_driver) = Some (Return () ?d0)"
    by (subst wait_first[where m = "(ble_rsp_gap_connect_direct, no_args)"
          and self' = BGAPIBackend_init])
       (simp_all add: lost_link_world_def run_defs)
  have a2: "process_packets_until ?D ?W [ble_evt_connection_status] (Some 5) NotConnectedError
      ?d0 = Some (Return () ?d1)"
    using process_packets_until_match[of ?W ?d0 0 ?D "[ble_evt_connection_status]"
        "(ble_evt_connection_status, no_args\<lparr>arg_flags := 1\<rparr>)" ?s1 "Some 5" NotConnectedError]
    by (simp add: lost_link_world_def run_defs elapsed_def)
  have a: "connect ?D ?W [1, 2, 3, 4, 5, 6] 5 0 new_driver = Some (Return () ?d1)"
    using a1 a2 by (simp add: connect_def run_defs)
  have b1: "process_packets_until ?D ?W
      [ble_rsp_sm_set_bondable_mode, ble_evt_connection_disconnected] None BGAPIError
      (send_command ?c2 (?d1\<lparr>obj := (obj ?d1)\<lparr>bond_expected := True\<rparr>\<rparr>)) = Some (Return () ?d2)"
    by (subst wait_first[where
          m = "(ble_evt_connection_disconnected, no_args\<lparr>arg_reason := 520\<rparr>)"
          and self' = ?s2])
       (simp_all add: lost_link_world_def run_defs)
  have b: "bond ?D ?W ?d1 = Some (Raise (NotConnectedError ''Not connected'') ?d2)"
    using b1 by (simp add: bond_def check_connection_def run_defs)
  have c: "disconnect ?D ?W True ?d2 = Some (Return () ?d3)"
    using disconnect_quietly_returns[of ?W ?d2 1 ?D
        "(ble_rsp_connection_disconnect, no_args\<lparr>arg_result := 390\<rparr>)" ?s3 0
        "(ble_rsp_connection_disconnect, no_args)" BGAPIBackend_init]
    by (simp add: lost_link_world_def run_defs upt_rec)
  have d: "bonded ?s3"
    by (simp add: BGAPIBackend_init_def)
  have e: "last_lifecycle
     [(ble_rsp_gap_connect_direct, no_args),
      (ble_evt_connection_status, no_args\<lparr>arg_flags := 1\<rparr>),
      (ble_evt_connection_disconnected, no_args\<lparr>arg_reason := 520\<rparr>),
      (ble_evt_sm_bond_status, no_args),
      (ble_rsp_connection_disconnect, no_args\<lparr>arg_result := 390\<rparr>)] =
     Some ble_evt_connection_disconnected"
    by (simp add: last_lifecycle_def lifecycle_def)
  from a b c d e show ?thesis by (intro conjI)
qed

end
